theory Spec2Isabelle
  imports Main "HOL-Library.AList" "HOL-Library.Sublist"
begin

section \<open>Values exchanged with the outside world\<close>

text \<open>
  The two scripts \<^verbatim>\<open>src/main.py\<close> (with logging) and \<^verbatim>\<open>src/Main.py\<close> (without) read two
  JSON documents from the status API. A well-formed region record is an object with the keys
  \<^verbatim>\<open>name\<close> and \<^verbatim>\<open>service_ids\<close>; a well-formed service record has \<^verbatim>\<open>service_id\<close>,
  \<^verbatim>\<open>service_name\<close> and \<^verbatim>\<open>status\<close>; a group has a list \<^verbatim>\<open>services\<close>. The type \<open>'i\<close> is the
  type of service identifiers (any hashable JSON scalar).
\<close>

record 'i region =
  name :: string
  service_ids :: "'i list"

record 'i service =
  service_id :: 'i
  service_name :: string
  status :: int

record 'i group =
  services :: "'i service list"

text \<open>The statuses document is an object whose key \<^verbatim>\<open>groups\<close> may be absent.\<close>

type_synonym 'i statuses = "'i group list option"

text \<open>
  What \<^verbatim>\<open>requests.get(url)\<close>, \<^verbatim>\<open>raise_for_status()\<close> and \<^verbatim>\<open>response.json()\<close> give together:
  a \<^verbatim>\<open>RequestException\<close> with its message, or the decoded body.
\<close>

datatype 'a response = RequestException string | Json 'a

text \<open>The value \<^verbatim>\<open>fetch_data\<close> returns: the empty dict \<^verbatim>\<open>{}\<close> or the decoded body.\<close>

datatype 'a fetched = EmptyDict | Data 'a

datatype level = INFO | ERROR

type_synonym log = "(level \<times> string) list"

section \<open>Python built-ins used by the scripts\<close>

text \<open>
  A \<^verbatim>\<open>dict\<close> keeps its keys in insertion order and assigning to an existing key replaces the
  value in place: an association list with \<^const>\<open>AList.update\<close>.
\<close>

type_synonym ('k, 'v) dict = "('k \<times> 'v) list"

definition setitem :: "('k, 'v) dict \<Rightarrow> 'k \<Rightarrow> 'v \<Rightarrow> ('k, 'v) dict" where
  "setitem d k v = AList.update k v d"

definition has_key :: "'k \<Rightarrow> ('k, 'v) dict \<Rightarrow> bool" where
  "has_key k d = (map_of d k \<noteq> None)"

text \<open>
  The exceptions a run can meet, each with its message. All of them derive from
  \<^verbatim>\<open>Exception\<close>, so \<^verbatim>\<open>except Exception\<close> catches every one.
\<close>

datatype py_exception =
  KeyError string | AttributeError string | TypeError string | ValueError string
  | OSError string | SMTPException string

definition getitem :: "('k, 'v) dict \<Rightarrow> 'k \<Rightarrow> py_exception + 'v" where
  "getitem d k = (case map_of d k of None \<Rightarrow> Inl (KeyError ''key'') | Some v \<Rightarrow> Inr v)"

text \<open>\<^verbatim>\<open>str(n)\<close> for a non-negative integer.\<close>

definition digit :: "nat \<Rightarrow> char" where
  "digit d = char_of (of_char CHR ''0'' + d)"

fun str_nat :: "nat \<Rightarrow> string" where
  "str_nat n = (if n < 10 then [digit n] else str_nat (n div 10) @ [digit (n mod 10)])"

definition str_bool :: "bool \<Rightarrow> string" where
  "str_bool b = (if b then ''True'' else ''False'')"

section \<open>Fetching\<close>

text \<open>
  \<^verbatim>\<open>fetch_data\<close> of \<^verbatim>\<open>src/main.py\<close> (lines 22-31) returns the value and the lines it logs;
  \<^verbatim>\<open>fetch_data\<close> of \<^verbatim>\<open>src/Main.py\<close> (lines 12-19) returns the value and what it prints.
  Time stamps are left out of the log lines.
\<close>

definition fetch_data :: "string \<Rightarrow> 'a response \<Rightarrow> 'a fetched \<times> log" where
  "fetch_data url resp =
     (case resp of
        Json body \<Rightarrow>
          (Data body,
           [(INFO, ''Fetching data from '' @ url),
            (INFO, ''Successfully fetched data from '' @ url)])
      | RequestException e \<Rightarrow>
          (EmptyDict,
           [(INFO, ''Fetching data from '' @ url),
            (ERROR, ''Error fetching data from '' @ url @ '': '' @ e)]))"

definition Main_fetch_data :: "string \<Rightarrow> 'a response \<Rightarrow> 'a fetched \<times> string list" where
  "Main_fetch_data url resp =
     (case resp of
        Json body \<Rightarrow> (Data body, [])
      | RequestException e \<Rightarrow>
          (EmptyDict, [''Error fetching data from '' @ url @ '': '' @ e]))"

section \<open>Region Aggregator\<close>

text \<open>
  The loop body \<^verbatim>\<open>region_services[region['name']] = set(region['service_ids'])\<close>, the same
  text in both files. Iterating over the empty dict visits nothing.
\<close>

definition region_step :: "'i region \<Rightarrow> (string, 'i set) dict \<Rightarrow> (string, 'i set) dict" where
  "region_step region region_services =
     setitem region_services (name region) (set (service_ids region))"

definition region_records :: "'i region list fetched \<Rightarrow> 'i region list" where
  "region_records data = (case data of EmptyDict \<Rightarrow> [] | Data rs \<Rightarrow> rs)"

definition region_loop :: "'i region list fetched \<Rightarrow> (string, 'i set) dict" where
  "region_loop data = fold region_step (region_records data) []"

definition regions_url :: string where
  "regions_url = ''https://status.cloud.com/api/connected_hub_services''"

definition get_region_services :: "'i region list response \<Rightarrow> (string, 'i set) dict \<times> log" where
  "get_region_services resp =
     (let (data, fetch_log) = fetch_data regions_url resp;
          region_services = region_loop data
      in (region_services,
          [(INFO, ''Getting region services'')] @ fetch_log @
          [(INFO, ''Found '' @ str_nat (length region_services) @ '' regions'')]))"

definition Main_get_region_services ::
  "'i region list response \<Rightarrow> (string, 'i set) dict \<times> string list" where
  "Main_get_region_services resp =
     (let (data, out) = Main_fetch_data regions_url resp
      in (region_loop data, out))"

section \<open>Status Aggregator\<close>

record overall_status =
  all_up :: bool
  count_status_1 :: nat
  count_status_2 :: nat
  count_status_3 :: nat

record service_entry =
  entry_name :: string
  entry_status :: int

definition initial_overall_status :: overall_status where
  "initial_overall_status =
     \<lparr>all_up = True, count_status_1 = 0, count_status_2 = 0, count_status_3 = 0\<rparr>"

text \<open>The body of the inner loop (\<^verbatim>\<open>src/main.py\<close> lines 53-64, \<^verbatim>\<open>src/Main.py\<close> lines 38-49).\<close>

definition service_step ::
  "'i service \<Rightarrow> ('i, service_entry) dict \<times> overall_status
     \<Rightarrow> ('i, service_entry) dict \<times> overall_status" where
  "service_step service st =
     (let (service_statuses, overall) = st;
          service_statuses' = setitem service_statuses (service_id service)
             \<lparr>entry_name = service_name service, entry_status = status service\<rparr>
      in if status service = 1 then
           (service_statuses', overall\<lparr>count_status_1 := count_status_1 overall + 1\<rparr>)
         else if status service = 2 then
           (service_statuses',
            overall\<lparr>count_status_2 := count_status_2 overall + 1, all_up := False\<rparr>)
         else if status service = 3 then
           (service_statuses',
            overall\<lparr>count_status_3 := count_status_3 overall + 1, all_up := False\<rparr>)
         else (service_statuses', overall))"

definition group_step ::
  "'i group \<Rightarrow> ('i, service_entry) dict \<times> overall_status
     \<Rightarrow> ('i, service_entry) dict \<times> overall_status" where
  "group_step grp st = fold service_step (services grp) st"

definition status_loop ::
  "'i statuses fetched \<Rightarrow> ('i, service_entry) dict \<times> overall_status" where
  "status_loop data =
     (case data of
        EmptyDict \<Rightarrow> ([], initial_overall_status)
      | Data None \<Rightarrow> ([], initial_overall_status)
      | Data (Some gs) \<Rightarrow> fold group_step gs ([], initial_overall_status))"

definition statuses_url :: string where
  "statuses_url = ''https://status.cloud.com/api/statuses''"

definition get_service_statuses ::
  "'i statuses response \<Rightarrow> (('i, service_entry) dict \<times> overall_status) \<times> log" where
  "get_service_statuses resp =
     (let (data, fetch_log) = fetch_data statuses_url resp;
          (service_statuses, overall) = status_loop data
      in ((service_statuses, overall),
          [(INFO, ''Getting service statuses'')] @ fetch_log @
          [(INFO, ''Found '' @ str_nat (length service_statuses) @ '' services''),
           (INFO, ''Overall status: '' @
                  (if all_up overall then ''All up'' else ''Some services down''))]))"

definition Main_get_service_statuses ::
  "'i statuses response \<Rightarrow> (('i, service_entry) dict \<times> overall_status) \<times> string list" where
  "Main_get_service_statuses resp =
     (let (data, out) = Main_fetch_data statuses_url resp
      in (status_loop data, out))"

text \<open>The service records the nested loops walk, in order.\<close>

definition walked :: "'i statuses response \<Rightarrow> 'i service list" where
  "walked resp =
     (case resp of
        Json (Some gs) \<Rightarrow> concat (map services gs)
      | _ \<Rightarrow> [])"

text \<open>The region records the region loop walks, in order.\<close>

definition region_walked :: "'i region list response \<Rightarrow> 'i region list" where
  "region_walked resp = (case resp of Json rs \<Rightarrow> rs | _ \<Rightarrow> [])"

section \<open>Report Builder\<close>

text \<open>
  A loop whose body may raise: the first exception ends the loop and is the result.
\<close>

fun for_each :: "('a \<Rightarrow> 's \<Rightarrow> py_exception + 's) \<Rightarrow> 'a list \<Rightarrow> 's \<Rightarrow> py_exception + 's" where
  "for_each body [] s = Inr s"
| "for_each body (x # xs) s =
     (case body x s of Inl e \<Rightarrow> Inl e | Inr s' \<Rightarrow> for_each body xs s')"

text \<open>
  \<^verbatim>\<open>region_status = defaultdict(list)\<close>: reading a missing key gives the empty list, and
  \<^verbatim>\<open>region_status[status].append(x)\<close> stores the extended list under the key.
\<close>

definition dd_get :: "(string, string list) dict \<Rightarrow> string \<Rightarrow> string list" where
  "dd_get d k = (case map_of d k of None \<Rightarrow> [] | Some v \<Rightarrow> v)"

definition dd_append :: "(string, string list) dict \<Rightarrow> string \<Rightarrow> string \<Rightarrow> (string, string list) dict" where
  "dd_append d k x = setitem d k (dd_get d k @ [x])"

text \<open>The summary and the overall counts (\<^verbatim>\<open>src/main.py\<close> lines 75-88, \<^verbatim>\<open>src/Main.py\<close> 57-70).\<close>

definition summary_section ::
  "(string, 'i set) dict \<Rightarrow> ('i, service_entry) dict \<Rightarrow> overall_status \<Rightarrow> string" where
  "summary_section region_services service_statuses overall =
     ''<html><body>'' @
     ''<h1>Citrix Service Status Summary</h1>'' @
     ''<h2>Summary:</h2>'' @
     ''<p>Total number of regions: '' @ str_nat (length region_services) @ ''</p>'' @
     ''<p>Total number of services: '' @ str_nat (length service_statuses) @ ''</p>'' @
     ''<p>Overall status: '' @
        (if all_up overall then ''All services up'' else ''Some services are down'') @ ''</p>'' @
     ''<h2>Overall Status:</h2>'' @
     ''<p>All services up: '' @ str_bool (all_up overall) @ ''</p>'' @
     ''<p>Services up: '' @ str_nat (count_status_1 overall) @ ''</p>'' @
     ''<p>Services with issues: '' @ str_nat (count_status_2 overall) @ ''</p>'' @
     ''<p>Services down: '' @ str_nat (count_status_3 overall) @ ''</p>''"

text \<open>The first per-region section (\<^verbatim>\<open>src/main.py\<close> lines 91-99): inner loop body and region body.\<close>

definition listing_body :: "('i, service_entry) dict \<Rightarrow> 'i \<Rightarrow> string \<Rightarrow> py_exception + string" where
  "listing_body service_statuses sid report =
     (if has_key sid service_statuses then
        (case getitem service_statuses sid of
           Inl e \<Rightarrow> Inl e
         | Inr service \<Rightarrow>
             (let status = (if entry_status service = 1 then ''Up'' else ''Down'')
              in Inr (report @ ''<li>'' @ entry_name service @ '': '' @ status @ ''</li>'')))
      else Inr report)"

definition listing_region ::
  "('i set \<Rightarrow> 'i list) \<Rightarrow> ('i, service_entry) dict \<Rightarrow> string \<times> 'i set \<Rightarrow> string
     \<Rightarrow> py_exception + string" where
  "listing_region set_iter service_statuses item report =
     (let (region, service_ids) = item
      in case for_each (listing_body service_statuses) (set_iter service_ids)
                (report @ ''<h3>'' @ region @ '':</h3>'' @ ''<ul>'') of
           Inl e \<Rightarrow> Inl e
         | Inr report' \<Rightarrow> Inr (report' @ ''</ul>''))"

text \<open>The detailed section (\<^verbatim>\<open>src/main.py\<close> lines 102-124).\<close>

definition detail_body ::
  "('i, service_entry) dict \<Rightarrow> 'i \<Rightarrow> (string, string list) dict
     \<Rightarrow> py_exception + (string, string list) dict" where
  "detail_body service_statuses sid region_status =
     (if has_key sid service_statuses then
        (case getitem service_statuses sid of
           Inl e \<Rightarrow> Inl e
         | Inr service \<Rightarrow>
             (let status = (if entry_status service = 1 then ''Up'' else ''Down'')
              in Inr (dd_append region_status status (entry_name service))))
      else Inr region_status)"

definition list_items :: "string list \<Rightarrow> string \<Rightarrow> string" where
  "list_items names report = fold (\<lambda>service r. r @ ''<li>'' @ service @ ''</li>'') names report"

definition detail_region ::
  "('i set \<Rightarrow> 'i list) \<Rightarrow> ('i, service_entry) dict \<Rightarrow> string \<times> 'i set \<Rightarrow> string
     \<Rightarrow> py_exception + string" where
  "detail_region set_iter service_statuses item report =
     (let (region, service_ids) = item;
          report1 = report @ ''<h3>'' @ region @ '':</h3>''
      in case for_each (detail_body service_statuses) (set_iter service_ids) [] of
           Inl e \<Rightarrow> Inl e
         | Inr region_status \<Rightarrow>
             (let report2 = report1 @
                    ''<p>Services Up: '' @ str_nat (length (dd_get region_status ''Up'')) @ ''</p>'';
                  report3 = report2 @
                    ''<p>Services Down: '' @ str_nat (length (dd_get region_status ''Down'')) @ ''</p>'';
                  report4 =
                    (if dd_get region_status ''Up'' \<noteq> [] then
                       list_items (dd_get region_status ''Up'')
                         (report3 @ ''<h4>Services Up:</h4>'' @ ''<ul>'') @ ''</ul>''
                     else report3);
                  report5 =
                    (if dd_get region_status ''Down'' \<noteq> [] then
                       list_items (dd_get region_status ''Down'')
                         (report4 @ ''<h4>Services Down:</h4>'' @ ''<ul>'') @ ''</ul>''
                     else report4)
              in Inr report5))"

text \<open>
  The string built by \<^verbatim>\<open>create_report\<close> from the two aggregator outputs. \<open>set_iter\<close> is the
  order in which the interpreter iterates over a set.
\<close>

definition build_report ::
  "('i set \<Rightarrow> 'i list) \<Rightarrow> (string, 'i set) dict \<Rightarrow> ('i, service_entry) dict \<Rightarrow> overall_status
     \<Rightarrow> py_exception + string" where
  "build_report set_iter region_services service_statuses overall =
     (case for_each (listing_region set_iter service_statuses) region_services
             (summary_section region_services service_statuses overall @
              ''<h2>Services by Region:</h2>'') of
        Inl e \<Rightarrow> Inl e
      | Inr report \<Rightarrow>
          (case for_each (detail_region set_iter service_statuses) region_services
                  (report @ ''<h2>Detailed Status by Region:</h2>'') of
             Inl e \<Rightarrow> Inl e
           | Inr report' \<Rightarrow> Inr (report' @ ''</body></html>'')))"

section \<open>The world a run meets\<close>

text \<open>
  Everything a run reads from outside: the two HTTP responses, the process environment, whether
  the report file can be opened, what each SMTP operation raises (\<open>None\<close>: it succeeds), and
  two things the interpreter decides: the iteration order of a set and \<^verbatim>\<open>int(s)\<close> on a string
  (\<open>None\<close>: \<^verbatim>\<open>ValueError\<close>).
\<close>

record 'i world =
  regions_response :: "'i region list response"
  statuses_response :: "'i statuses response"
  set_iter :: "'i set \<Rightarrow> 'i list"
  environ :: "string \<rightharpoonup> string"
  py_int :: "string \<Rightarrow> int option"
  open_error :: "py_exception option"
  connect_error :: "py_exception option"
  starttls_error :: "py_exception option"
  login_error :: "py_exception option"
  send_error :: "py_exception option"
  quit_error :: "py_exception option"

section \<open>create_report\<close>

definition create_report :: "'i world \<Rightarrow> (py_exception + string) \<times> log" where
  "create_report w =
     (let (region_services, log1) = get_region_services (regions_response w);
          ((service_statuses, overall), log2) = get_service_statuses (statuses_response w);
          logged = [(INFO, ''Creating report'')] @ log1 @ log2
      in case build_report (set_iter w) region_services service_statuses overall of
           Inl e \<Rightarrow> (Inl e, logged)
         | Inr report \<Rightarrow> (Inr report, logged @ [(INFO, ''Report created successfully'')]))"

definition Main_create_report :: "'i world \<Rightarrow> (py_exception + string) \<times> string list" where
  "Main_create_report w =
     (let (region_services, out1) = Main_get_region_services (regions_response w);
          ((service_statuses, overall), out2) = Main_get_service_statuses (statuses_response w)
      in (build_report (set_iter w) region_services service_statuses overall, out1 @ out2))"

section \<open>Report Sink\<close>

fun join :: "string \<Rightarrow> string list \<Rightarrow> string" where
  "join sep [] = []"
| "join sep [x] = x"
| "join sep (x # y # ys) = x @ sep @ join sep (y # ys)"

fun str_split :: "char \<Rightarrow> string \<Rightarrow> string list" where
  "str_split sep [] = [[]]"
| "str_split sep (c # cs) =
     (if c = sep then [] # str_split sep cs
      else (case str_split sep cs of [] \<Rightarrow> [[c]] | p # ps \<Rightarrow> (c # p) # ps))"

definition lower_char :: "char \<Rightarrow> char" where
  "lower_char c =
     (if 65 \<le> (of_char c :: nat) \<and> (of_char c :: nat) \<le> 90
      then char_of ((of_char c :: nat) + 32) else c)"

definition lower :: "string \<Rightarrow> string" where
  "lower s = map lower_char s"

fun str_exc :: "py_exception \<Rightarrow> string" where
  "str_exc (KeyError m) = m"
| "str_exc (AttributeError m) = m"
| "str_exc (TypeError m) = m"
| "str_exc (ValueError m) = m"
| "str_exc (OSError m) = m"
| "str_exc (SMTPException m) = m"

record message =
  msg_from :: "string option"
  msg_to :: string
  msg_subject :: string
  msg_html :: string

datatype smtp_call =
  Connect "string option" int
  | StartTLS
  | Login "string option" "string option"
  | SendMessage message
  | Quit

text \<open>
  The block \<^verbatim>\<open>with smtplib.SMTP(smtp_server, smtp_port) as server: ...\<close>, the same text in both
  files. It gives the exception that leaves the block (if any) and the SMTP operations
  attempted. When the constructor raises the block is not entered; otherwise leaving the
  block, normally or not, sends \<^verbatim>\<open>QUIT\<close>, and an exception of \<^verbatim>\<open>__exit__\<close> replaces the pending one.
\<close>

definition smtp_body ::
  "'i world \<Rightarrow> bool \<Rightarrow> string option \<Rightarrow> string option \<Rightarrow> message
     \<Rightarrow> py_exception option \<times> smtp_call list" where
  "smtp_body w use_tls smtp_username smtp_password msg =
     (let tls = (if use_tls then [StartTLS] else [])
      in if use_tls \<and> starttls_error w \<noteq> None then (starttls_error w, tls)
         else if login_error w \<noteq> None then
           (login_error w, tls @ [Login smtp_username smtp_password])
         else (send_error w, tls @ [Login smtp_username smtp_password, SendMessage msg]))"

definition smtp_session ::
  "'i world \<Rightarrow> string option \<Rightarrow> int \<Rightarrow> bool \<Rightarrow> string option \<Rightarrow> string option \<Rightarrow> message
     \<Rightarrow> py_exception option \<times> smtp_call list" where
  "smtp_session w smtp_server smtp_port use_tls smtp_username smtp_password msg =
     (case connect_error w of
        Some e \<Rightarrow> (Some e, [Connect smtp_server smtp_port])
      | None \<Rightarrow>
          (let (raised, calls) = smtp_body w use_tls smtp_username smtp_password msg
           in (case quit_error w of Some e \<Rightarrow> Some e | None \<Rightarrow> raised,
               [Connect smtp_server smtp_port] @ calls @ [Quit])))"

definition getenv_use_tls :: "'i world \<Rightarrow> bool" where
  "getenv_use_tls w =
     (lower (case environ w ''USE_TLS'' of None \<Rightarrow> ''False'' | Some v \<Rightarrow> v) = ''true'')"

definition make_message :: "'i world \<Rightarrow> string \<Rightarrow> string \<Rightarrow> string list \<Rightarrow> message" where
  "make_message w subject body recipients =
     \<lparr>msg_from = environ w ''SMTP_USERNAME'', msg_to = join '', '' recipients,
      msg_subject = subject, msg_html = body\<rparr>"

text \<open>
  \<^verbatim>\<open>send_email\<close> of \<^verbatim>\<open>src/main.py\<close> (lines 130-153): the exception that leaves it (if any), the
  SMTP operations and the log lines.
\<close>

definition send_email ::
  "'i world \<Rightarrow> string \<Rightarrow> string \<Rightarrow> string list \<Rightarrow> py_exception option \<times> smtp_call list \<times> log" where
  "send_email w subject body recipients =
     (let log1 = [(INFO, ''Sending email to '' @ join '', '' recipients)]
      in case environ w ''SMTP_PORT'' of
           None \<Rightarrow> (Some (TypeError ''int() argument must be a string, not NoneType''), [], log1)
         | Some p \<Rightarrow>
             (case py_int w p of
                None \<Rightarrow> (Some (ValueError ''invalid literal for int() with base 10''), [], log1)
              | Some smtp_port \<Rightarrow>
                  (let (raised, calls) =
                         smtp_session w (environ w ''SMTP_SERVER'') smtp_port (getenv_use_tls w)
                           (environ w ''SMTP_USERNAME'') (environ w ''SMTP_PASSWORD'')
                           (make_message w subject body recipients)
                   in case raised of
                        None \<Rightarrow> (None, calls, log1 @ [(INFO, ''Email sent successfully'')])
                      | Some e \<Rightarrow>
                          (None, calls, log1 @ [(ERROR, ''Error sending email: '' @ str_exc e)]))))"

text \<open>\<^verbatim>\<open>send_email\<close> of \<^verbatim>\<open>src/Main.py\<close> (lines 111-129): no \<^verbatim>\<open>try\<close> around the block.\<close>

definition Main_send_email ::
  "'i world \<Rightarrow> string \<Rightarrow> string \<Rightarrow> string list \<Rightarrow> py_exception option \<times> smtp_call list" where
  "Main_send_email w subject body recipients =
     (case environ w ''SMTP_PORT'' of
        None \<Rightarrow> (Some (TypeError ''int() argument must be a string, not NoneType''), [])
      | Some p \<Rightarrow>
          (case py_int w p of
             None \<Rightarrow> (Some (ValueError ''invalid literal for int() with base 10''), [])
           | Some smtp_port \<Rightarrow>
               smtp_session w (environ w ''SMTP_SERVER'') smtp_port (getenv_use_tls w)
                 (environ w ''SMTP_USERNAME'') (environ w ''SMTP_PASSWORD'')
                 (make_message w subject body recipients)))"

section \<open>main\<close>

text \<open>
  What a run leaves behind: the exception that ends the process (\<open>None\<close>: it returns and the
  exit code is 0), the text written to \<^verbatim>\<open>citrix_service_status_report.html\<close> (\<open>None\<close>: the
  file was not written), the SMTP operations attempted, the log lines and the printed lines.
\<close>

record run =
  uncaught :: "py_exception option"
  written :: "string option"
  smtp_calls :: "smtp_call list"
  logged :: log
  printed :: "string list"

definition no_split :: py_exception where
  "no_split = AttributeError ''NoneType object has no attribute split''"

definition main :: "'i world \<Rightarrow> run" where
  "main w =
     (let log0 = [(INFO, ''Starting Citrix Service Status Report script'')];
          (result, log1) = create_report w
      in case result of
           Inl e \<Rightarrow>
             \<lparr>uncaught = Some e, written = None, smtp_calls = [],
              logged = log0 @ log1, printed = []\<rparr>
         | Inr report \<Rightarrow>
             (let log2 = log0 @ log1 @ [(INFO, ''Saving report to file'')]
              in case open_error w of
                   Some e \<Rightarrow>
                     \<lparr>uncaught = Some e, written = None, smtp_calls = [],
                      logged = log2, printed = []\<rparr>
                 | None \<Rightarrow>
                     (let log3 = log2 @
                            [(INFO, ''Report saved to citrix_service_status_report.html'')]
                      in case environ w ''EMAIL_RECIPIENTS'' of
                           None \<Rightarrow>
                             \<lparr>uncaught = Some no_split, written = Some report, smtp_calls = [],
                              logged = log3, printed = []\<rparr>
                         | Some v \<Rightarrow>
                             (let (raised, calls, log4) =
                                    send_email w ''Citrix Service Status Report'' report
                                      (str_split CHR '','' v)
                              in case raised of
                                   Some e \<Rightarrow>
                                     \<lparr>uncaught = Some e, written = Some report,
                                      smtp_calls = calls, logged = log3 @ log4, printed = []\<rparr>
                                 | None \<Rightarrow>
                                     \<lparr>uncaught = None, written = Some report,
                                      smtp_calls = calls,
                                      logged = log3 @ log4 @
                                        [(INFO, ''Script execution completed'')],
                                      printed = []\<rparr>))))"

definition Main_main :: "'i world \<Rightarrow> run" where
  "Main_main w =
     (let (result, out1) = Main_create_report w
      in case result of
           Inl e \<Rightarrow>
             \<lparr>uncaught = Some e, written = None, smtp_calls = [], logged = [], printed = out1\<rparr>
         | Inr report \<Rightarrow>
             (let out2 = out1 @ [report]
              in case open_error w of
                   Some e \<Rightarrow>
                     \<lparr>uncaught = Some e, written = None, smtp_calls = [],
                      logged = [], printed = out2\<rparr>
                 | None \<Rightarrow>
                     (case environ w ''EMAIL_RECIPIENTS'' of
                        None \<Rightarrow>
                          \<lparr>uncaught = Some no_split, written = Some report, smtp_calls = [],
                           logged = [], printed = out2\<rparr>
                      | Some v \<Rightarrow>
                          (let (raised, calls) =
                                 Main_send_email w ''Citrix Service Status Report'' report
                                   (str_split CHR '','' v)
                           in \<lparr>uncaught = raised, written = Some report, smtp_calls = calls,
                               logged = [], printed = out2\<rparr>))))"

section \<open>Fixtures\<close>

text \<open>Three services in two groups: two with status 1, one with status 3.\<close>

definition fx_statuses :: "nat statuses response" where
  "fx_statuses = Json (Some
     [\<lparr>services = [\<lparr>service_id = 1, service_name = ''Gateway'', status = 1\<rparr>,
                   \<lparr>service_id = 2, service_name = ''Director'', status = 3\<rparr>]\<rparr>,
      \<lparr>services = [\<lparr>service_id = 3, service_name = ''Studio'', status = 1\<rparr>]\<rparr>])"

text \<open>The report built from no regions and no services.\<close>

definition empty_report :: string where
  "empty_report =
     ''<html><body><h1>Citrix Service Status Summary</h1><h2>Summary:</h2>'' @
     ''<p>Total number of regions: 0</p><p>Total number of services: 0</p>'' @
     ''<p>Overall status: All services up</p><h2>Overall Status:</h2>'' @
     ''<p>All services up: True</p><p>Services up: 0</p><p>Services with issues: 0</p>'' @
     ''<p>Services down: 0</p><h2>Services by Region:</h2>'' @
     ''<h2>Detailed Status by Region:</h2></body></html>''"

text \<open>Two regions; service 9 of the first has no status.\<close>

definition fx_regions :: "nat region list response" where
  "fx_regions = Json [\<lparr>name = ''EU'', service_ids = [1, 2, 9]\<rparr>,
                      \<lparr>name = ''US'', service_ids = [2, 3]\<rparr>]"

definition fx_env :: "string \<rightharpoonup> string" where
  "fx_env = [''SMTP_SERVER'' \<mapsto> ''mail.example.org'', ''SMTP_PORT'' \<mapsto> ''587'',
             ''SMTP_USERNAME'' \<mapsto> ''reports'', ''SMTP_PASSWORD'' \<mapsto> ''secret'',
             ''USE_TLS'' \<mapsto> ''True'', ''EMAIL_RECIPIENTS'' \<mapsto> ''a@example.org,b@example.org'']"

definition fx_world :: "nat world" where
  "fx_world =
     \<lparr>regions_response = fx_regions, statuses_response = fx_statuses,
      set_iter = (\<lambda>S. filter (\<lambda>i. i \<in> S) [0..<10]),
      environ = fx_env,
      py_int = (\<lambda>s. if s = ''587'' then Some 587 else None),
      open_error = None, connect_error = None, starttls_error = None, login_error = None,
      send_error = None, quit_error = None\<rparr>"

text \<open>Both fetches fail.\<close>

definition fx_failed :: "nat world" where
  "fx_failed = fx_world\<lparr>regions_response := RequestException ''timed out'',
                          statuses_response := RequestException ''timed out''\<rparr>"

text \<open>Two service records with the same id.\<close>

definition fx_duplicate :: "nat statuses response" where
  "fx_duplicate = Json (Some
     [\<lparr>services = [\<lparr>service_id = 7, service_name = ''Gateway'', status = 1\<rparr>,
                   \<lparr>service_id = 7, service_name = ''Gateway (standby)'', status = 3\<rparr>]\<rparr>])"

text \<open>A status mapping with one service of each status; id 9 is not a key.\<close>

definition fx_status_map :: "(nat, service_entry) dict" where
  "fx_status_map =
     [(1, \<lparr>entry_name = ''Gateway'', entry_status = 1\<rparr>),
      (2, \<lparr>entry_name = ''Director'', entry_status = 3\<rparr>),
      (4, \<lparr>entry_name = ''Broker'', entry_status = 2\<rparr>)]"

text \<open>The SMTP server refuses the connection.\<close>

definition fx_smtp_down :: "nat world" where
  "fx_smtp_down = fx_world\<lparr>connect_error := Some (OSError ''Connection refused'')\<rparr>"

text \<open>The SMTP server rejects the credentials.\<close>

definition fx_login_rejected :: "nat world" where
  "fx_login_rejected = fx_world\<lparr>login_error := Some (SMTPException ''Authentication failed'')\<rparr>"

text \<open>\<^verbatim>\<open>EMAIL_RECIPIENTS\<close> is not set.\<close>

definition fx_no_recipients :: "nat world" where
  "fx_no_recipients = fx_world\<lparr>environ := fx_env(''EMAIL_RECIPIENTS'' := None)\<rparr>"

section \<open>Dictionaries built by a loop of assignments\<close>

declare str_nat.simps [simp del]

lemma str_nat_small:
  "str_nat 0 = ''0''" "str_nat 1 = ''1''" "str_nat 2 = ''2''" "str_nat 3 = ''3''"
  "str_nat (Suc 0) = ''1''"
  by code_simp+

lemma map_of_fold_setitem:
  "map_of (fold (\<lambda>x d. setitem d (k x) (v x)) xs d) i =
     (case find (\<lambda>x. k x = i) (rev xs) of None \<Rightarrow> map_of d i | Some x \<Rightarrow> Some (v x))"
proof (induction xs rule: rev_induct)
  case Nil
  show ?case by simp
next
  case (snoc x xs)
  then show ?case by (simp add: setitem_def update_conv')
qed

lemma keys_fold_setitem:
  "set (map fst (fold (\<lambda>x d. setitem d (k x) (v x)) xs d)) = set (map fst d) \<union> k ` set xs"
proof (induction xs arbitrary: d)
  case Nil
  show ?case by simp
next
  case (Cons x xs)
  have "fst ` set (AList.update (k x) (v x) d) = {k x} \<union> fst ` set d"
    by (rule dom_update)
  with Cons show ?case by (auto simp: setitem_def)
qed

lemma distinct_fold_setitem:
  "distinct (map fst d) \<Longrightarrow> distinct (map fst (fold (\<lambda>x d. setitem d (k x) (v x)) xs d))"
  by (induction xs arbitrary: d) (simp_all add: setitem_def distinct_update)

lemma length_fold_setitem:
  "length (fold (\<lambda>x d. setitem d (k x) (v x)) xs []) = card (k ` set xs)"
proof -
  let ?d = "fold (\<lambda>x d. setitem d (k x) (v x)) xs []"
  have "distinct (map fst ?d)" by (rule distinct_fold_setitem) simp
  then have "card (set (map fst ?d)) = length (map fst ?d)" by (rule distinct_card)
  then show ?thesis by (simp add: keys_fold_setitem del: set_map)
qed

section \<open>Properties of the Region Aggregator\<close>

lemma region_step_eq: "region_step = (\<lambda>x d. setitem d (name x) (set (service_ids x)))"
  by (intro ext) (simp add: region_step_def)

lemma fst_get_region_services:
  "fst (get_region_services resp) = fold region_step (region_walked resp) []"
  by (cases resp)
     (simp_all add: get_region_services_def fetch_data_def region_loop_def region_records_def
        region_walked_def Let_def)

lemma fst_Main_get_region_services:
  "fst (Main_get_region_services resp) = fold region_step (region_walked resp) []"
  by (cases resp)
     (simp_all add: Main_get_region_services_def Main_fetch_data_def region_loop_def
        region_records_def region_walked_def Let_def)

text \<open>
  Claim C5. For every region-services response the region mapping of either file has pairwise
  distinct keys, its keys are exactly the \<^verbatim>\<open>name\<close> values of the records, so it has one entry
  per distinct name, and the value stored under a name is the set of the \<^verbatim>\<open>service_ids\<close> of the
  last record with that name: a later record replaces an earlier one, the sets are not merged.
\<close>

theorem region_mapping_one_entry_per_name:
  "distinct (map fst (fst (get_region_services resp))) \<and>
   set (map fst (fst (get_region_services resp))) = name ` set (region_walked resp) \<and>
   length (fst (get_region_services resp)) = card (name ` set (region_walked resp)) \<and>
   map_of (fst (get_region_services resp)) n =
     (case find (\<lambda>r. name r = n) (rev (region_walked resp)) of
        None \<Rightarrow> None
      | Some r \<Rightarrow> Some (set (service_ids r))) \<and>
   fst (Main_get_region_services resp) = fst (get_region_services resp)"
  unfolding fst_get_region_services fst_Main_get_region_services region_step_eq
  using distinct_fold_setitem [of "[]" name "\<lambda>x. set (service_ids x)" "region_walked resp"]
        keys_fold_setitem [of name "\<lambda>x. set (service_ids x)" "region_walked resp" "[]"]
        length_fold_setitem [of name "\<lambda>x. set (service_ids x)" "region_walked resp"]
        map_of_fold_setitem [of name "\<lambda>x. set (service_ids x)" "region_walked resp" "[]" n]
  by (simp split: option.split)

text \<open>Two records named EU: the mapping keeps \<open>{3}\<close>, the set of the later one, not \<open>{1, 2, 3}\<close>.\<close>

theorem region_mapping_overwrite_witness:
  "map_of (fst (get_region_services
      (Json [\<lparr>name = ''EU'', service_ids = [1, 2 :: nat]\<rparr>,
             \<lparr>name = ''US'', service_ids = [2]\<rparr>,
             \<lparr>name = ''EU'', service_ids = [3]\<rparr>]))) ''EU'' = Some {3} \<and>
   length (fst (get_region_services
      (Json [\<lparr>name = ''EU'', service_ids = [1, 2 :: nat]\<rparr>,
             \<lparr>name = ''US'', service_ids = [2]\<rparr>,
             \<lparr>name = ''EU'', service_ids = [3]\<rparr>]))) = 2"
  using region_mapping_one_entry_per_name
    [of "Json [\<lparr>name = ''EU'', service_ids = [1, 2 :: nat]\<rparr>,
               \<lparr>name = ''US'', service_ids = [2]\<rparr>,
               \<lparr>name = ''EU'', service_ids = [3]\<rparr>]" "''EU''"]
  by (simp add: region_walked_def card_insert_if)

section \<open>Properties of the Status Aggregator\<close>

lemma service_step_pair:
  "service_step x (d, os) =
     (setitem d (service_id x) \<lparr>entry_name = service_name x, entry_status = status x\<rparr>,
      \<lparr>all_up = (all_up os \<and> status x \<noteq> 2 \<and> status x \<noteq> 3),
       count_status_1 = count_status_1 os + (if status x = 1 then 1 else 0),
       count_status_2 = count_status_2 os + (if status x = 2 then 1 else 0),
       count_status_3 = count_status_3 os + (if status x = 3 then 1 else 0)\<rparr>)"
  by (simp add: service_step_def)

lemma fold_service_step:
  "fold service_step xs (d, os) =
     (fold (\<lambda>s d. setitem d (service_id s)
              \<lparr>entry_name = service_name s, entry_status = status s\<rparr>) xs d,
      \<lparr>all_up = (all_up os \<and> (\<forall>s \<in> set xs. status s \<noteq> 2 \<and> status s \<noteq> 3)),
       count_status_1 = count_status_1 os + length (filter (\<lambda>s. status s = 1) xs),
       count_status_2 = count_status_2 os + length (filter (\<lambda>s. status s = 2) xs),
       count_status_3 = count_status_3 os + length (filter (\<lambda>s. status s = 3) xs)\<rparr>)"
proof (induction xs arbitrary: d os)
  case Nil
  show ?case by simp
next
  case (Cons x xs)
  show ?case
    by (auto simp: service_step_pair Cons.IH)
qed

lemma fold_group_step:
  "fold group_step gs st = fold service_step (concat (map services gs)) st"
  by (induction gs arbitrary: st) (simp_all add: group_step_def)

lemma status_loop_walked:
  "status_loop (fst (fetch_data url resp)) = fold service_step (walked resp) ([], initial_overall_status)"
  "status_loop (fst (Main_fetch_data url resp)) = fold service_step (walked resp) ([], initial_overall_status)"
  by (auto simp: status_loop_def fetch_data_def Main_fetch_data_def walked_def fold_group_step
      split: response.split option.split)

lemma fst_get_service_statuses:
  "fst (get_service_statuses resp) = fold service_step (walked resp) ([], initial_overall_status)"
  using status_loop_walked(1) [of statuses_url resp]
  by (simp add: get_service_statuses_def Let_def case_prod_beta)

lemma fst_Main_get_service_statuses:
  "fst (Main_get_service_statuses resp) = fold service_step (walked resp) ([], initial_overall_status)"
  using status_loop_walked(2) [of statuses_url resp]
  by (simp add: Main_get_service_statuses_def Let_def case_prod_beta)

lemma aggregate_eq:
  "fold service_step (walked resp) ([], initial_overall_status) =
     (fold (\<lambda>s d. setitem d (service_id s)
              \<lparr>entry_name = service_name s, entry_status = status s\<rparr>) (walked resp) [],
      \<lparr>all_up = (\<forall>s \<in> set (walked resp). status s \<noteq> 2 \<and> status s \<noteq> 3),
       count_status_1 = length (filter (\<lambda>s. status s = 1) (walked resp)),
       count_status_2 = length (filter (\<lambda>s. status s = 2) (walked resp)),
       count_status_3 = length (filter (\<lambda>s. status s = 3) (walked resp))\<rparr>)"
  by (simp add: fold_service_step initial_overall_status_def)

lemma filter_three_le:
  "length (filter (\<lambda>s. status s = 1) xs) + length (filter (\<lambda>s. status s = 2) xs) +
   length (filter (\<lambda>s. status s = 3) xs) \<le> length (xs :: 'i service list)"
  by (induction xs) auto

lemma filter_three_eq:
  "\<forall>s \<in> set xs. status s \<in> {1, 2, 3} \<Longrightarrow>
   length (filter (\<lambda>s. status s = 1) xs) + length (filter (\<lambda>s. status s = 2) xs) +
   length (filter (\<lambda>s. status s = 3) xs) = length (xs :: 'i service list)"
  by (induction xs) auto

text \<open>
  Claim C1. For every status response, in either file, the three counters add up to at most
  the number of service records walked, and to exactly that number when every status code is
  1, 2 or 3. The flag \<open>all_up\<close> holds at the end iff the counters of status 2 and 3 are both
  zero, iff no record walked has status 2 or 3: it starts true, and a step leaves it true only
  if it was true before and the record has neither status 2 nor 3, so it never turns true again.
\<close>

theorem status_counts_invariant:
  assumes "fst (get_service_statuses resp) = (service_statuses, overall) \<or>
           fst (Main_get_service_statuses resp) = (service_statuses, overall)"
  shows "count_status_1 overall + count_status_2 overall + count_status_3 overall
           \<le> length (walked resp) \<and>
         ((\<forall>s \<in> set (walked resp). status s \<in> {1, 2, 3}) \<longrightarrow>
            count_status_1 overall + count_status_2 overall + count_status_3 overall
              = length (walked resp)) \<and>
         (all_up overall \<longleftrightarrow> count_status_2 overall = 0 \<and> count_status_3 overall = 0) \<and>
         (all_up overall \<longleftrightarrow> (\<forall>s \<in> set (walked resp). status s \<noteq> 2 \<and> status s \<noteq> 3)) \<and>
         all_up initial_overall_status \<and>
         (\<forall>s st. all_up (snd (service_step s st)) \<longleftrightarrow>
                   all_up (snd st) \<and> status s \<noteq> 2 \<and> status s \<noteq> 3)"
proof -
  from assms have ov: "overall =
      \<lparr>all_up = (\<forall>s \<in> set (walked resp). status s \<noteq> 2 \<and> status s \<noteq> 3),
       count_status_1 = length (filter (\<lambda>s. status s = 1) (walked resp)),
       count_status_2 = length (filter (\<lambda>s. status s = 2) (walked resp)),
       count_status_3 = length (filter (\<lambda>s. status s = 3) (walked resp))\<rparr>"
    by (auto simp: fst_get_service_statuses fst_Main_get_service_statuses aggregate_eq)
  have step: "\<forall>s st. all_up (snd (service_step s st)) \<longleftrightarrow>
                   all_up (snd st) \<and> status s \<noteq> 2 \<and> status s \<noteq> 3"
    by (simp add: service_step_def Let_def split: prod.split)
  have init: "all_up initial_overall_status"
    by (simp add: initial_overall_status_def)
  have flag: "all_up overall \<longleftrightarrow> count_status_2 overall = 0 \<and> count_status_3 overall = 0"
    by (auto simp: ov filter_empty_conv)
  have flag': "all_up overall \<longleftrightarrow> (\<forall>s \<in> set (walked resp). status s \<noteq> 2 \<and> status s \<noteq> 3)"
    by (simp add: ov)
  have le: "count_status_1 overall + count_status_2 overall + count_status_3 overall
              \<le> length (walked resp)"
    using filter_three_le [of "walked resp"] by (simp add: ov)
  have eq: "(\<forall>s \<in> set (walked resp). status s \<in> {1, 2, 3}) \<longrightarrow>
            count_status_1 overall + count_status_2 overall + count_status_3 overall
              = length (walked resp)"
    using filter_three_eq [of "walked resp"] by (simp add: ov)
  from le eq flag flag' init step show ?thesis by blast
qed


theorem status_counts_invariant_witness:
  "count_status_1 (snd (fst (get_service_statuses fx_statuses))) +
   count_status_2 (snd (fst (get_service_statuses fx_statuses))) +
   count_status_3 (snd (fst (get_service_statuses fx_statuses))) = 3 \<and>
   \<not> all_up (snd (fst (get_service_statuses fx_statuses))) \<and>
   \<not> (count_status_2 (snd (fst (get_service_statuses fx_statuses))) = 0 \<and>
      count_status_3 (snd (fst (get_service_statuses fx_statuses))) = 0)"
proof -
  have w: "walked fx_statuses =
     [\<lparr>service_id = 1, service_name = ''Gateway'', status = 1\<rparr>,
      \<lparr>service_id = 2, service_name = ''Director'', status = 3\<rparr>,
      \<lparr>service_id = 3, service_name = ''Studio'', status = 1\<rparr>]"
    by (simp add: walked_def fx_statuses_def)
  have h: "fst (get_service_statuses fx_statuses) =
             (fst (fst (get_service_statuses fx_statuses)),
              snd (fst (get_service_statuses fx_statuses))) \<or>
           fst (Main_get_service_statuses fx_statuses) =
             (fst (fst (get_service_statuses fx_statuses)),
              snd (fst (get_service_statuses fx_statuses)))"
    by simp
  show ?thesis
    using status_counts_invariant [OF h] by (auto simp: w)
qed

section \<open>Properties of the Report Builder\<close>

lemma sublist_skip_append: "sublist x ys \<Longrightarrow> sublist x (zs @ ys)"
  by (auto simp: sublist_def) (metis append.assoc)

lemma sublist_keep_prefix: "sublist x ys \<Longrightarrow> sublist x (ys @ zs)"
  by (auto simp: sublist_def) (metis append.assoc)

lemma summary_regions:
  "sublist (''Total number of regions: '' @ str_nat (length rs)) (summary_section rs ss os)"
  unfolding summary_section_def
  by (simp add: sublist_Cons_right sublist_skip_append)

lemma summary_services:
  "sublist (''Total number of services: '' @ str_nat (length ss)) (summary_section rs ss os)"
  unfolding summary_section_def
  by (simp add: sublist_Cons_right sublist_skip_append)

lemma summary_up:
  "sublist (''Services up: '' @ str_nat (count_status_1 os)) (summary_section rs ss os)"
  unfolding summary_section_def
  by (simp add: sublist_Cons_right sublist_skip_append)

lemma summary_issues:
  "sublist (''Services with issues: '' @ str_nat (count_status_2 os)) (summary_section rs ss os)"
  unfolding summary_section_def
  by (simp add: sublist_Cons_right sublist_skip_append)

lemma summary_down:
  "sublist (''Services down: '' @ str_nat (count_status_3 os)) (summary_section rs ss os)"
  unfolding summary_section_def
  by (simp add: sublist_Cons_right sublist_skip_append)

lemma summary_all_up:
  "all_up os \<Longrightarrow> sublist ''Overall status: All services up'' (summary_section rs ss os)"
  unfolding summary_section_def
  by (simp add: sublist_Cons_right sublist_skip_append)

lemma summary_some_down:
  "\<not> all_up os \<Longrightarrow> sublist ''Some services are down'' (summary_section rs ss os)"
  unfolding summary_section_def
  by (simp add: sublist_Cons_right sublist_skip_append)


lemma for_each_total:
  "(\<And>x s. \<exists>s'. body x s = Inr s') \<Longrightarrow> \<exists>s'. for_each body xs s = Inr s'"
proof (induction xs arbitrary: s)
  case Nil
  show ?case by simp
next
  case (Cons x xs)
  from Cons.prems obtain s1 where "body x s = Inr s1" by blast
  moreover from Cons.IH Cons.prems obtain s2 where "for_each body xs s1 = Inr s2" by blast
  ultimately show ?case by simp
qed

lemma for_each_appends:
  "(\<And>x s. \<exists>t. body x s = Inr (s @ t)) \<Longrightarrow> \<exists>t. for_each body xs s = Inr (s @ t)"
proof (induction xs arbitrary: s)
  case Nil
  show ?case by simp
next
  case (Cons x xs)
  from Cons.prems obtain t1 where 1: "body x s = Inr (s @ t1)" by blast
  from Cons.IH Cons.prems obtain t2 where "for_each body xs (s @ t1) = Inr ((s @ t1) @ t2)"
    by blast
  with 1 have "for_each body (x # xs) s = Inr (s @ (t1 @ t2))" by simp
  then show ?case by blast
qed

lemma for_each_skip:
  "(\<And>x s. \<not> P x \<Longrightarrow> body x s = Inr s) \<Longrightarrow>
   for_each body (filter P xs) s = for_each body xs s"
  by (induction xs arbitrary: s) (auto split: sum.split)

lemma getitem_has_key:
  "has_key k d \<Longrightarrow> getitem d k = Inr (the (map_of d k))"
  by (auto simp: has_key_def getitem_def)

lemma listing_body_eq:
  "listing_body ss sid report =
     Inr (report @ (case map_of ss sid of
                      None \<Rightarrow> []
                    | Some e \<Rightarrow> ''<li>'' @ entry_name e @ '': '' @
                        (if entry_status e = 1 then ''Up'' else ''Down'') @ ''</li>''))"
  by (auto simp: listing_body_def has_key_def getitem_def Let_def)

lemma detail_body_eq:
  "detail_body ss sid d =
     Inr (case map_of ss sid of
            None \<Rightarrow> d
          | Some e \<Rightarrow> dd_append d (if entry_status e = 1 then ''Up'' else ''Down'')
                        (entry_name e))"
  by (auto simp: detail_body_def has_key_def getitem_def Let_def)

lemma listing_region_appends:
  "\<exists>t. listing_region it ss item report = Inr (report @ t)"
proof -
  obtain region ids where item: "item = (region, ids)" by (cases item)
  have "\<exists>t. for_each (listing_body ss) (it ids) (report @ ''<h3>'' @ region @ '':</h3>'' @ ''<ul>'')
          = Inr ((report @ ''<h3>'' @ region @ '':</h3>'' @ ''<ul>'') @ t)"
    by (rule for_each_appends) (simp add: listing_body_eq)
  then obtain t where
    "for_each (listing_body ss) (it ids) (report @ ''<h3>'' @ region @ '':</h3>'' @ ''<ul>'')
          = Inr ((report @ ''<h3>'' @ region @ '':</h3>'' @ ''<ul>'') @ t)" ..
  then have "listing_region it ss item report
      = Inr (report @ (''<h3>'' @ region @ '':</h3>'' @ ''<ul>'' @ t @ ''</ul>''))"
    by (simp add: listing_region_def item)
  then show ?thesis by blast
qed

lemma list_items_appends: "\<exists>t. list_items names report = report @ t"
  unfolding list_items_def
proof (induction names arbitrary: report)
  case Nil
  show ?case by simp
next
  case (Cons n names)
  from Cons [of "report @ ''<li>'' @ n @ ''</li>''"] obtain t where
    "fold (\<lambda>service r. r @ ''<li>'' @ service @ ''</li>'') names (report @ ''<li>'' @ n @ ''</li>'')
       = (report @ ''<li>'' @ n @ ''</li>'') @ t" ..
  then have "fold (\<lambda>service r. r @ ''<li>'' @ service @ ''</li>'') (n # names) report
       = report @ (''<li>'' @ n @ ''</li>'' @ t)" by simp
  then show ?case by blast
qed

lemma detail_region_appends:
  "\<exists>t. detail_region it ss item report = Inr (report @ t)"
proof -
  obtain region ids where item: "item = (region, ids)" by (cases item)
  have "\<exists>d. for_each (detail_body ss) (it ids) [] = Inr d"
    by (rule for_each_total) (simp add: detail_body_eq)
  then obtain d where d: "for_each (detail_body ss) (it ids) [] = Inr d" ..
  define r3 where "r3 = report @ (''<h3>'' @ region @ '':</h3>'' @
       ''<p>Services Up: '' @ str_nat (length (dd_get d ''Up'')) @ ''</p>'' @
       ''<p>Services Down: '' @ str_nat (length (dd_get d ''Down'')) @ ''</p>'')"
  define r4 where "r4 = (if dd_get d ''Up'' \<noteq> [] then
                       list_items (dd_get d ''Up'')
                         (r3 @ ''<h4>Services Up:</h4>'' @ ''<ul>'') @ ''</ul>''
                     else r3)"
  define r5 where "r5 = (if dd_get d ''Down'' \<noteq> [] then
                       list_items (dd_get d ''Down'')
                         (r4 @ ''<h4>Services Down:</h4>'' @ ''<ul>'') @ ''</ul>''
                     else r4)"
  have res: "detail_region it ss item report = Inr r5"
    by (simp add: detail_region_def item d Let_def r3_def r4_def r5_def)
  have "\<exists>t. r4 = r3 @ t"
  proof (cases "dd_get d ''Up'' \<noteq> []")
    case True
    obtain t where "list_items (dd_get d ''Up'') (r3 @ ''<h4>Services Up:</h4>'' @ ''<ul>'')
        = (r3 @ ''<h4>Services Up:</h4>'' @ ''<ul>'') @ t"
      using list_items_appends by blast
    with True have "r4 = r3 @ (''<h4>Services Up:</h4>'' @ ''<ul>'' @ t @ ''</ul>'')"
      by (simp add: r4_def)
    then show ?thesis by blast
  next
    case False
    then show ?thesis by (simp add: r4_def)
  qed
  then obtain t4 where t4: "r4 = r3 @ t4" ..
  have "\<exists>t. r5 = r4 @ t"
  proof (cases "dd_get d ''Down'' \<noteq> []")
    case True
    obtain t where "list_items (dd_get d ''Down'') (r4 @ ''<h4>Services Down:</h4>'' @ ''<ul>'')
        = (r4 @ ''<h4>Services Down:</h4>'' @ ''<ul>'') @ t"
      using list_items_appends by blast
    with True have "r5 = r4 @ (''<h4>Services Down:</h4>'' @ ''<ul>'' @ t @ ''</ul>'')"
      by (simp add: r5_def)
    then show ?thesis by blast
  next
    case False
    then show ?thesis by (simp add: r5_def)
  qed
  then obtain t5 where t5: "r5 = r4 @ t5" ..
  have "r5 = report @ ((''<h3>'' @ region @ '':</h3>'' @
       ''<p>Services Up: '' @ str_nat (length (dd_get d ''Up'')) @ ''</p>'' @
       ''<p>Services Down: '' @ str_nat (length (dd_get d ''Down'')) @ ''</p>'') @ t4 @ t5)"
    unfolding t5 t4 r3_def by (simp only: append_assoc)
  with res show ?thesis by blast
qed

lemma build_report_shape:
  "\<exists>t. build_report it rs ss os = Inr (summary_section rs ss os @ t)"
proof -
  have "\<exists>t. for_each (listing_region it ss) rs
              (summary_section rs ss os @ ''<h2>Services by Region:</h2>'')
            = Inr ((summary_section rs ss os @ ''<h2>Services by Region:</h2>'') @ t)"
    by (rule for_each_appends) (rule listing_region_appends)
  then obtain t1 where 1: "for_each (listing_region it ss) rs
              (summary_section rs ss os @ ''<h2>Services by Region:</h2>'')
            = Inr ((summary_section rs ss os @ ''<h2>Services by Region:</h2>'') @ t1)" ..
  define r1 where "r1 = (summary_section rs ss os @ ''<h2>Services by Region:</h2>'') @ t1"
  have "\<exists>t. for_each (detail_region it ss) rs (r1 @ ''<h2>Detailed Status by Region:</h2>'')
            = Inr ((r1 @ ''<h2>Detailed Status by Region:</h2>'') @ t)"
    by (rule for_each_appends) (rule detail_region_appends)
  then obtain t2 where 2: "for_each (detail_region it ss) rs
              (r1 @ ''<h2>Detailed Status by Region:</h2>'')
            = Inr ((r1 @ ''<h2>Detailed Status by Region:</h2>'') @ t2)" ..
  have "build_report it rs ss os
      = Inr (((r1 @ ''<h2>Detailed Status by Region:</h2>'') @ t2) @ ''</body></html>'')"
    using 1 2 by (simp add: build_report_def r1_def)
  then have "build_report it rs ss os
      = Inr (summary_section rs ss os @ (''<h2>Services by Region:</h2>'' @ t1 @
          ''<h2>Detailed Status by Region:</h2>'' @ t2 @ ''</body></html>''))"
    by (simp only: r1_def append_assoc)
  then show ?thesis by blast
qed

section \<open>Properties of create_report\<close>

lemma fst_create_report:
  "fst (create_report w) =
     build_report (set_iter w) (fst (get_region_services (regions_response w)))
       (fst (fst (get_service_statuses (statuses_response w))))
       (snd (fst (get_service_statuses (statuses_response w))))"
  by (simp add: create_report_def Let_def case_prod_beta split: sum.split)

lemma fst_Main_create_report:
  "fst (Main_create_report w) = fst (create_report w)"
  by (simp add: fst_create_report Main_create_report_def Let_def case_prod_beta
      fst_get_region_services fst_Main_get_region_services
      fst_get_service_statuses fst_Main_get_service_statuses)

lemma fetch_EmptyDict:
  "fst (fetch_data url resp) = EmptyDict \<Longrightarrow> \<exists>e. resp = RequestException e"
  by (cases resp) (simp_all add: fetch_data_def)

lemma build_report_empty:
  "build_report it [] [] initial_overall_status = Inr empty_report"
  by (simp add: build_report_def summary_section_def initial_overall_status_def str_nat_small
      str_bool_def empty_report_def)

text \<open>
  Claim C4. When both fetches give the empty dict, the report is the fixed text
  \<open>empty_report\<close>, which contains "Total number of regions: 0", "Total number of services: 0"
  and "Overall status: All services up"; it is the very report of a run whose two responses
  are valid and empty, so a failed fetch cannot be told from a healthy state. Both files build
  the same report.
\<close>

theorem empty_fetch_reports_all_up:
  assumes "fst (fetch_data regions_url (regions_response w)) = EmptyDict"
      and "fst (fetch_data statuses_url (statuses_response w)) = EmptyDict"
  shows "fst (create_report w) = Inr empty_report \<and>
         sublist ''Total number of regions: 0'' empty_report \<and>
         sublist ''Total number of services: 0'' empty_report \<and>
         sublist ''Overall status: All services up'' empty_report \<and>
         fst (create_report w) =
           fst (create_report (w\<lparr>regions_response := Json [], statuses_response := Json (Some [])\<rparr>)) \<and>
         fst (Main_create_report w) = fst (create_report w)"
proof -
  from assms(1) have r: "region_walked (regions_response w) = []"
    by (auto dest!: fetch_EmptyDict simp: region_walked_def)
  from assms(2) have s: "walked (statuses_response w) = []"
    by (auto dest!: fetch_EmptyDict simp: walked_def)
  have 1: "fst (create_report w) = Inr empty_report"
    by (simp add: fst_create_report fst_get_region_services fst_get_service_statuses r s
        build_report_empty)
  have 2: "fst (create_report (w\<lparr>regions_response := Json [], statuses_response := Json (Some [])\<rparr>))
             = Inr empty_report"
    by (simp add: fst_create_report fst_get_region_services fst_get_service_statuses
        region_walked_def walked_def build_report_empty)
  have 3: "sublist ''Total number of regions: 0'' empty_report"
    by (simp add: empty_report_def sublist_Cons_right)
  have 4: "sublist ''Total number of services: 0'' empty_report"
    by (simp add: empty_report_def sublist_Cons_right)
  have 5: "sublist ''Overall status: All services up'' empty_report"
    by (simp add: empty_report_def sublist_Cons_right)
  from 1 2 3 4 5 show ?thesis by (simp add: fst_Main_create_report)
qed

theorem empty_fetch_reports_all_up_witness:
  "fst (create_report fx_failed) = Inr empty_report \<and>
   sublist ''Overall status: All services up'' empty_report"
  using empty_fetch_reports_all_up [of fx_failed]
  by (simp add: fx_failed_def fetch_data_def)

lemma report_contains_summary:
  assumes "sublist x (summary_section
              (fst (get_region_services (regions_response w)))
              (fst (fst (get_service_statuses (statuses_response w))))
              (snd (fst (get_service_statuses (statuses_response w)))))"
      and "fst (create_report w) = Inr report"
  shows "sublist x report"
proof -
  obtain t where "fst (create_report w) = Inr (summary_section
              (fst (get_region_services (regions_response w)))
              (fst (fst (get_service_statuses (statuses_response w))))
              (snd (fst (get_service_statuses (statuses_response w)))) @ t)"
    unfolding fst_create_report using build_report_shape by blast
  with assms(2) have "report = summary_section
              (fst (get_region_services (regions_response w)))
              (fst (fst (get_service_statuses (statuses_response w))))
              (snd (fst (get_service_statuses (statuses_response w)))) @ t" by simp
  with assms(1) show ?thesis by (simp add: sublist_keep_prefix)
qed

lemma create_report_returns: "\<exists>report. fst (create_report w) = Inr report"
  unfolding fst_create_report using build_report_shape by blast

lemma length_region_services:
  "distinct (map name (region_walked resp)) \<Longrightarrow>
   length (fst (get_region_services resp)) = length (region_walked resp)"
  unfolding fst_get_region_services region_step_eq length_fold_setitem
  by (metis distinct_card length_map set_map)

lemma length_service_statuses:
  "length (fst (fst (get_service_statuses resp))) = card (service_id ` set (walked resp))"
  by (simp add: fst_get_service_statuses aggregate_eq length_fold_setitem)

lemma overall_of_walked:
  "snd (fst (get_service_statuses resp)) =
      \<lparr>all_up = (\<forall>s \<in> set (walked resp). status s \<noteq> 2 \<and> status s \<noteq> 3),
       count_status_1 = length (filter (\<lambda>s. status s = 1) (walked resp)),
       count_status_2 = length (filter (\<lambda>s. status s = 2) (walked resp)),
       count_status_3 = length (filter (\<lambda>s. status s = 3) (walked resp))\<rparr>"
  by (simp add: fst_get_service_statuses aggregate_eq)

text \<open>
  Claim C8. When the region response has two records with different names and the status
  response has three service records with different ids, two of status 1 and one of status 3,
  create_report returns a string that contains "Total number of regions: 2",
  "Total number of services: 3", "Services up: 2", "Services down: 1" and
  "Some services are down".
\<close>

theorem fixture_summary_lines:
  assumes "length (region_walked (regions_response w)) = 2"
      and "distinct (map name (region_walked (regions_response w)))"
      and "length (walked (statuses_response w)) = 3"
      and "distinct (map service_id (walked (statuses_response w)))"
      and "length (filter (\<lambda>s. status s = 1) (walked (statuses_response w))) = 2"
      and "length (filter (\<lambda>s. status s = 3) (walked (statuses_response w))) = 1"
  shows "\<exists>report. fst (create_report w) = Inr report \<and>
           sublist ''Total number of regions: 2'' report \<and>
           sublist ''Total number of services: 3'' report \<and>
           sublist ''Services up: 2'' report \<and>
           sublist ''Services down: 1'' report \<and>
           sublist ''Some services are down'' report"
proof -
  let ?rs = "fst (get_region_services (regions_response w))"
  let ?ss = "fst (fst (get_service_statuses (statuses_response w)))"
  let ?os = "snd (fst (get_service_statuses (statuses_response w)))"
  obtain report where rep: "fst (create_report w) = Inr report"
    using create_report_returns by blast
  have n_regions: "length ?rs = 2"
    using assms(1,2) by (simp add: length_region_services)
  have "card (service_id ` set (walked (statuses_response w)))
          = length (map service_id (walked (statuses_response w)))"
    using assms(4) distinct_card [of "map service_id (walked (statuses_response w))"] by simp
  then have n_services: "length ?ss = 3"
    using assms(3) by (simp add: length_service_statuses)
  have c1: "count_status_1 ?os = 2" using assms(5) by (simp add: overall_of_walked)
  have c3: "count_status_3 ?os = 1" using assms(6) by (simp add: overall_of_walked)
  have "filter (\<lambda>s. status s = 3) (walked (statuses_response w)) \<noteq> []"
    using assms(6) by auto
  then have "\<exists>s \<in> set (walked (statuses_response w)). status s = 3"
    by (simp add: filter_empty_conv)
  then have down: "\<not> all_up ?os" by (auto simp: overall_of_walked)
  have "sublist ''Total number of regions: 2'' (summary_section ?rs ?ss ?os)"
    using summary_regions [of ?rs ?ss ?os] by (simp add: n_regions str_nat_small)
  then have "sublist ''Total number of regions: 2'' report"
    by (rule report_contains_summary [OF _ rep])
  moreover
  have "sublist ''Total number of services: 3'' (summary_section ?rs ?ss ?os)"
    using summary_services [of ?ss ?rs ?os] by (simp add: n_services str_nat_small)
  then have "sublist ''Total number of services: 3'' report"
    by (rule report_contains_summary [OF _ rep])
  moreover
  have "sublist ''Services up: 2'' (summary_section ?rs ?ss ?os)"
    using summary_up [of ?os ?rs ?ss] by (simp add: c1 str_nat_small)
  then have "sublist ''Services up: 2'' report"
    by (rule report_contains_summary [OF _ rep])
  moreover
  have "sublist ''Services down: 1'' (summary_section ?rs ?ss ?os)"
    using summary_down [of ?os ?rs ?ss] by (simp add: c3 str_nat_small)
  then have "sublist ''Services down: 1'' report"
    by (rule report_contains_summary [OF _ rep])
  moreover
  have "sublist ''Some services are down'' (summary_section ?rs ?ss ?os)"
    using summary_some_down [OF down, of ?rs ?ss] by simp
  then have "sublist ''Some services are down'' report"
    by (rule report_contains_summary [OF _ rep])
  ultimately show ?thesis using rep by blast
qed

theorem fixture_summary_lines_witness:
  "length (region_walked (regions_response fx_world)) = 2 \<and>
   length (walked (statuses_response fx_world)) = 3 \<and>
   (\<exists>report. fst (create_report fx_world) = Inr report \<and>
           sublist ''Total number of regions: 2'' report \<and>
           sublist ''Total number of services: 3'' report \<and>
           sublist ''Services up: 2'' report \<and>
           sublist ''Services down: 1'' report \<and>
           sublist ''Some services are down'' report)"
  using fixture_summary_lines [of fx_world]
  by (simp add: fx_world_def fx_regions_def fx_statuses_def region_walked_def walked_def)


lemma card_lt_length:
  "\<not> distinct xs \<Longrightarrow> card (set xs) < length xs"
  using card_length [of xs] card_distinct [of xs] by linarith

lemma service_statuses_of_walked:
  "fst (fst (get_service_statuses resp)) =
     fold (\<lambda>s d. setitem d (service_id s)
              \<lparr>entry_name = service_name s, entry_status = status s\<rparr>) (walked resp) []"
  by (simp add: fst_get_service_statuses aggregate_eq)

text \<open>
  Claim C10. The status mapping holds, for each id, the name and status of the last record
  with that id, while each counter is the number of records (not of ids) with that status.
  So when some id occurs twice and every status is 1, 2 or 3, the three counters add up to
  more than the size of the mapping, and the report shows the size of the mapping as
  "Total number of services" next to the larger "Services up", "Services with issues" and
  "Services down" counts. Main.py computes the same mapping and counters.
\<close>

theorem duplicate_ids_counts_exceed_total:
  assumes dup: "\<not> distinct (map service_id (walked (statuses_response w)))"
      and known: "\<forall>s \<in> set (walked (statuses_response w)). status s \<in> {1, 2, 3}"
      and res: "fst (get_service_statuses (statuses_response w)) = (service_statuses, overall)"
  shows "map_of service_statuses i =
           (case find (\<lambda>s. service_id s = i) (rev (walked (statuses_response w))) of
              None \<Rightarrow> None
            | Some s \<Rightarrow> Some \<lparr>entry_name = service_name s, entry_status = status s\<rparr>) \<and>
         count_status_1 overall = length (filter (\<lambda>s. status s = 1) (walked (statuses_response w))) \<and>
         count_status_2 overall = length (filter (\<lambda>s. status s = 2) (walked (statuses_response w))) \<and>
         count_status_3 overall = length (filter (\<lambda>s. status s = 3) (walked (statuses_response w))) \<and>
         length service_statuses
           < count_status_1 overall + count_status_2 overall + count_status_3 overall \<and>
         fst (Main_get_service_statuses (statuses_response w)) = (service_statuses, overall) \<and>
         (\<exists>report. fst (create_report w) = Inr report \<and>
            sublist (''Total number of services: '' @ str_nat (length service_statuses)) report \<and>
            sublist (''Services up: '' @ str_nat (count_status_1 overall)) report \<and>
            sublist (''Services with issues: '' @ str_nat (count_status_2 overall)) report \<and>
            sublist (''Services down: '' @ str_nat (count_status_3 overall)) report)"
proof -
  let ?xs = "walked (statuses_response w)"
  let ?rs = "fst (get_region_services (regions_response w))"
  from res have ss: "service_statuses = fst (fst (get_service_statuses (statuses_response w)))"
    and ov: "overall = snd (fst (get_service_statuses (statuses_response w)))"
    by simp_all
  have last: "map_of service_statuses i =
           (case find (\<lambda>s. service_id s = i) (rev ?xs) of
              None \<Rightarrow> None
            | Some s \<Rightarrow> Some \<lparr>entry_name = service_name s, entry_status = status s\<rparr>)"
    unfolding ss service_statuses_of_walked
    by (simp add: map_of_fold_setitem split: option.split)
  have c1: "count_status_1 overall = length (filter (\<lambda>s. status s = 1) ?xs)"
    and c2: "count_status_2 overall = length (filter (\<lambda>s. status s = 2) ?xs)"
    and c3: "count_status_3 overall = length (filter (\<lambda>s. status s = 3) ?xs)"
    by (simp_all add: ov overall_of_walked)
  have "length service_statuses = card (set (map service_id ?xs))"
    by (simp add: ss length_service_statuses)
  also have "\<dots> < length (map service_id ?xs)"
    using dup by (rule card_lt_length)
  also have "\<dots> = count_status_1 overall + count_status_2 overall + count_status_3 overall"
    using filter_three_eq [OF known] by (simp add: c1 c2 c3)
  finally have more: "length service_statuses
           < count_status_1 overall + count_status_2 overall + count_status_3 overall" .
  have same: "fst (Main_get_service_statuses (statuses_response w)) = (service_statuses, overall)"
    using res by (simp add: fst_get_service_statuses fst_Main_get_service_statuses)
  obtain report where rep: "fst (create_report w) = Inr report"
    using create_report_returns by blast
  have "sublist (''Total number of services: '' @ str_nat (length service_statuses)) report"
    unfolding ss by (rule report_contains_summary [OF summary_services rep])
  moreover
  have "sublist (''Services up: '' @ str_nat (count_status_1 overall)) report"
    unfolding ov by (rule report_contains_summary [OF summary_up rep])
  moreover
  have "sublist (''Services with issues: '' @ str_nat (count_status_2 overall)) report"
    unfolding ov by (rule report_contains_summary [OF summary_issues rep])
  moreover
  have "sublist (''Services down: '' @ str_nat (count_status_3 overall)) report"
    unfolding ov by (rule report_contains_summary [OF summary_down rep])
  ultimately show ?thesis using last c1 c2 c3 more same rep by blast
qed

theorem duplicate_ids_counts_exceed_total_witness:
  "\<not> distinct (map service_id (walked fx_duplicate)) \<and>
   length (fst (fst (get_service_statuses fx_duplicate))) = 1 \<and>
   count_status_1 (snd (fst (get_service_statuses fx_duplicate))) = 1 \<and>
   count_status_3 (snd (fst (get_service_statuses fx_duplicate))) = 1 \<and>
   map_of (fst (fst (get_service_statuses fx_duplicate))) 7 =
     Some \<lparr>entry_name = ''Gateway (standby)'', entry_status = 3\<rparr> \<and>
   (\<exists>report. fst (create_report (fx_world\<lparr>statuses_response := fx_duplicate\<rparr>)) = Inr report \<and>
      sublist ''Total number of services: 1'' report \<and>
      sublist ''Services up: 1'' report \<and>
      sublist ''Services down: 1'' report)"
proof -
  have w: "walked fx_duplicate =
     [\<lparr>service_id = 7, service_name = ''Gateway'', status = 1\<rparr>,
      \<lparr>service_id = 7, service_name = ''Gateway (standby)'', status = 3\<rparr>]"
    by (simp add: walked_def fx_duplicate_def)
  have len: "length (fst (fst (get_service_statuses fx_duplicate))) = 1"
    by (simp add: length_service_statuses w)
  show ?thesis
    using duplicate_ids_counts_exceed_total
      [of "fx_world\<lparr>statuses_response := fx_duplicate\<rparr>"
          "fst (fst (get_service_statuses fx_duplicate))"
          "snd (fst (get_service_statuses fx_duplicate))" 7]
    by (auto simp: w len str_nat_small)
qed

lemma map_filter_Cons:
  "List.map_filter f (x # xs) = (case f x of None \<Rightarrow> List.map_filter f xs | Some y \<Rightarrow> y # List.map_filter f xs)"
  by (simp add: List.map_filter_def split: option.split)

lemma listing_loop:
  "for_each (listing_body ss) ids report =
     Inr (report @ concat (map (\<lambda>e. ''<li>'' @ entry_name e @ '': '' @
                                  (if entry_status e = 1 then ''Up'' else ''Down'') @ ''</li>'')
                             (List.map_filter (map_of ss) ids)))"
proof (induction ids arbitrary: report)
  case Nil
  show ?case by (simp add: List.map_filter_def)
next
  case (Cons sid ids)
  show ?case
    using listing_body_eq [of ss sid report]
    by (cases "map_of ss sid") (simp_all add: Cons.IH map_filter_Cons)
qed

lemma dd_get_append:
  "dd_get (dd_append d k x) k' = (if k' = k then dd_get d k @ [x] else dd_get d k')"
  by (simp add: dd_get_def dd_append_def setitem_def update_conv')

lemma detail_loop:
  "\<exists>d'. for_each (detail_body ss) ids d = Inr d' \<and>
     dd_get d' ''Up'' = dd_get d ''Up'' @
        map entry_name (filter (\<lambda>e. entry_status e = 1) (List.map_filter (map_of ss) ids)) \<and>
     dd_get d' ''Down'' = dd_get d ''Down'' @
        map entry_name (filter (\<lambda>e. entry_status e \<noteq> 1) (List.map_filter (map_of ss) ids))"
proof (induction ids arbitrary: d)
  case Nil
  show ?case by (simp add: List.map_filter_def)
next
  case (Cons sid ids)
  show ?case
  proof (cases "map_of ss sid")
    case None
    with Cons.IH [of d] detail_body_eq [of ss sid d] show ?thesis
      by (simp add: map_filter_Cons)
  next
    case (Some e)
    from Cons.IH [of "dd_append d (if entry_status e = 1 then ''Up'' else ''Down'') (entry_name e)"]
    show ?thesis using Some detail_body_eq [of ss sid d]
      by (auto simp: map_filter_Cons dd_get_append)
  qed
qed

lemma for_each_exact:
  "(\<And>x s. body x s = Inr (s @ g x)) \<Longrightarrow> for_each body xs s = Inr (s @ concat (map g xs))"
proof (induction xs arbitrary: s)
  case Nil
  show ?case by simp
next
  case (Cons x xs)
  have "for_each body (x # xs) s = for_each body xs (s @ g x)"
    using Cons.prems [of x s] by simp
  also have "\<dots> = Inr ((s @ g x) @ concat (map g xs))"
    using Cons.prems by (rule Cons.IH)
  finally show ?case by simp
qed

lemma list_items_eq:
  "list_items names report = report @ concat (map (\<lambda>n. ''<li>'' @ n @ ''</li>'') names)"
  unfolding list_items_def
  by (induction names arbitrary: report) simp_all

lemma listing_region_eq:
  "listing_region it ss (region, ids) report =
     Inr (report @ ''<h3>'' @ region @ '':</h3>'' @ ''<ul>'' @
          concat (map (\<lambda>e. ''<li>'' @ entry_name e @ '': '' @
                         (if entry_status e = 1 then ''Up'' else ''Down'') @ ''</li>'')
                    (List.map_filter (map_of ss) (it ids))) @
          ''</ul>'')"
  using listing_loop [of ss "it ids" "report @ ''<h3>'' @ region @ '':</h3>'' @ ''<ul>''"]
  by (simp add: listing_region_def)

lemma detail_region_eq:
  "detail_region it ss (region, ids) report =
     (let entries = List.map_filter (map_of ss) (it ids);
          ups = map entry_name (filter (\<lambda>e. entry_status e = 1) entries);
          downs = map entry_name (filter (\<lambda>e. entry_status e \<noteq> 1) entries)
      in Inr (report @ ''<h3>'' @ region @ '':</h3>'' @
              ''<p>Services Up: '' @ str_nat (length ups) @ ''</p>'' @
              ''<p>Services Down: '' @ str_nat (length downs) @ ''</p>'' @
              (if ups \<noteq> [] then
                 ''<h4>Services Up:</h4>'' @ ''<ul>'' @
                 concat (map (\<lambda>n. ''<li>'' @ n @ ''</li>'') ups) @ ''</ul>''
               else []) @
              (if downs \<noteq> [] then
                 ''<h4>Services Down:</h4>'' @ ''<ul>'' @
                 concat (map (\<lambda>n. ''<li>'' @ n @ ''</li>'') downs) @ ''</ul>''
               else [])))"
proof -
  obtain d where d: "for_each (detail_body ss) (it ids) [] = Inr d"
    and up: "dd_get d ''Up'' = map entry_name (filter (\<lambda>e. entry_status e = 1)
                          (List.map_filter (map_of ss) (it ids)))"
    and down: "dd_get d ''Down'' = map entry_name (filter (\<lambda>e. entry_status e \<noteq> 1)
                          (List.map_filter (map_of ss) (it ids)))"
    using detail_loop [of ss "it ids" "[]"] by (auto simp: dd_get_def)
  show ?thesis
    unfolding detail_region_def
    by (simp add: d Let_def list_items_eq up down)
qed


lemma build_report_eq:
  "build_report it rs ss os =
     Inr (summary_section rs ss os @
          ''<h2>Services by Region:</h2>'' @
          concat (map (\<lambda>(region, ids).
             ''<h3>'' @ region @ '':</h3>'' @ ''<ul>'' @
             concat (map (\<lambda>e. ''<li>'' @ entry_name e @ '': '' @
                            (if entry_status e = 1 then ''Up'' else ''Down'') @ ''</li>'')
                       (List.map_filter (map_of ss) (it ids))) @
             ''</ul>'') rs) @
          ''<h2>Detailed Status by Region:</h2>'' @
          concat (map (\<lambda>(region, ids).
             (let entries = List.map_filter (map_of ss) (it ids);
                  ups = map entry_name (filter (\<lambda>e. entry_status e = 1) entries);
                  downs = map entry_name (filter (\<lambda>e. entry_status e \<noteq> 1) entries)
              in ''<h3>'' @ region @ '':</h3>'' @
                 ''<p>Services Up: '' @ str_nat (length ups) @ ''</p>'' @
                 ''<p>Services Down: '' @ str_nat (length downs) @ ''</p>'' @
                 (if ups \<noteq> [] then
                    ''<h4>Services Up:</h4>'' @ ''<ul>'' @
                    concat (map (\<lambda>n. ''<li>'' @ n @ ''</li>'') ups) @ ''</ul>''
                  else []) @
                 (if downs \<noteq> [] then
                    ''<h4>Services Down:</h4>'' @ ''<ul>'' @
                    concat (map (\<lambda>n. ''<li>'' @ n @ ''</li>'') downs) @ ''</ul>''
                  else []))) rs) @
          ''</body></html>'')"
proof -
  let ?gl = "\<lambda>(region, ids).
             ''<h3>'' @ region @ '':</h3>'' @ ''<ul>'' @
             concat (map (\<lambda>e. ''<li>'' @ entry_name e @ '': '' @
                            (if entry_status e = 1 then ''Up'' else ''Down'') @ ''</li>'')
                       (List.map_filter (map_of ss) (it ids))) @
             ''</ul>''"
  let ?gd = "\<lambda>(region, ids).
             (let entries = List.map_filter (map_of ss) (it ids);
                  ups = map entry_name (filter (\<lambda>e. entry_status e = 1) entries);
                  downs = map entry_name (filter (\<lambda>e. entry_status e \<noteq> 1) entries)
              in ''<h3>'' @ region @ '':</h3>'' @
                 ''<p>Services Up: '' @ str_nat (length ups) @ ''</p>'' @
                 ''<p>Services Down: '' @ str_nat (length downs) @ ''</p>'' @
                 (if ups \<noteq> [] then
                    ''<h4>Services Up:</h4>'' @ ''<ul>'' @
                    concat (map (\<lambda>n. ''<li>'' @ n @ ''</li>'') ups) @ ''</ul>''
                  else []) @
                 (if downs \<noteq> [] then
                    ''<h4>Services Down:</h4>'' @ ''<ul>'' @
                    concat (map (\<lambda>n. ''<li>'' @ n @ ''</li>'') downs) @ ''</ul>''
                  else []))"
  have l: "for_each (listing_region it ss) rs s = Inr (s @ concat (map ?gl rs))" for s
    by (rule for_each_exact) (simp add: listing_region_eq split: prod.split)
  have d: "for_each (detail_region it ss) rs s = Inr (s @ concat (map ?gd rs))" for s
    by (rule for_each_exact) (simp add: detail_region_eq Let_def split: prod.split)
  show ?thesis
    by (simp only: build_report_def l d sum.case append_assoc)
qed


lemma str_nat_two: "str_nat (Suc (Suc 0)) = ''2''"
  by code_simp

text \<open>
  Claim C6. In both per-region sections of the report a service renders as "Up" exactly when
  its status is 1. The by-region listing of a region is the heading, then one item
  "name: Up" or "name: Down" for each id of the region that has a status, "Up" when the status
  is 1 and "Down" for every other status. The detailed section of a region shows the number
  and the names of the services of status 1 under "Services Up" and of all other services
  that have a status under "Services Down". The report is the summary followed by these two
  sections for each region, for both files. The loop bodies behave the same way on one id,
  and the overall summary counts the records of status 2 and of status 3 in separate
  counters.
\<close>

theorem per_region_rendering_is_binary:
  "(map_of service_statuses sid = Some e \<longrightarrow>
      listing_body service_statuses sid report =
        Inr (report @ ''<li>'' @ entry_name e @ '': '' @
               (if entry_status e = 1 then ''Up'' else ''Down'') @ ''</li>'') \<and>
      detail_body service_statuses sid region_status =
        Inr (dd_append region_status (if entry_status e = 1 then ''Up'' else ''Down'')
               (entry_name e))) \<and>
   for_each (listing_body service_statuses) ids report =
     Inr (report @ concat (map (\<lambda>e. ''<li>'' @ entry_name e @ '': '' @
                                  (if entry_status e = 1 then ''Up'' else ''Down'') @ ''</li>'')
                             (List.map_filter (map_of service_statuses) ids))) \<and>
   (\<exists>d. for_each (detail_body service_statuses) ids [] = Inr d \<and>
      dd_get d ''Up'' = map entry_name (filter (\<lambda>e. entry_status e = 1)
                          (List.map_filter (map_of service_statuses) ids)) \<and>
      dd_get d ''Down'' = map entry_name (filter (\<lambda>e. entry_status e \<noteq> 1)
                          (List.map_filter (map_of service_statuses) ids))) \<and>
   count_status_2 (snd (fst (get_service_statuses resp)))
     = length (filter (\<lambda>s. status s = 2) (walked resp)) \<and>
   count_status_3 (snd (fst (get_service_statuses resp)))
     = length (filter (\<lambda>s. status s = 3) (walked resp)) \<and>
   listing_region it service_statuses (region, id_set) report =
     Inr (report @ ''<h3>'' @ region @ '':</h3>'' @ ''<ul>'' @
          concat (map (\<lambda>e. ''<li>'' @ entry_name e @ '': '' @
                         (if entry_status e = 1 then ''Up'' else ''Down'') @ ''</li>'')
                    (List.map_filter (map_of service_statuses) (it id_set))) @
          ''</ul>'') \<and>
   detail_region it service_statuses (region, id_set) report =
     (let entries = List.map_filter (map_of service_statuses) (it id_set);
          ups = map entry_name (filter (\<lambda>e. entry_status e = 1) entries);
          downs = map entry_name (filter (\<lambda>e. entry_status e \<noteq> 1) entries)
      in Inr (report @ ''<h3>'' @ region @ '':</h3>'' @
              ''<p>Services Up: '' @ str_nat (length ups) @ ''</p>'' @
              ''<p>Services Down: '' @ str_nat (length downs) @ ''</p>'' @
              (if ups \<noteq> [] then
                 ''<h4>Services Up:</h4>'' @ ''<ul>'' @
                 concat (map (\<lambda>n. ''<li>'' @ n @ ''</li>'') ups) @ ''</ul>''
               else []) @
              (if downs \<noteq> [] then
                 ''<h4>Services Down:</h4>'' @ ''<ul>'' @
                 concat (map (\<lambda>n. ''<li>'' @ n @ ''</li>'') downs) @ ''</ul>''
               else []))) \<and>
   build_report it region_services service_statuses overall =
     Inr (summary_section region_services service_statuses overall @
          ''<h2>Services by Region:</h2>'' @
          concat (map (\<lambda>(region, ids).
             ''<h3>'' @ region @ '':</h3>'' @ ''<ul>'' @
             concat (map (\<lambda>e. ''<li>'' @ entry_name e @ '': '' @
                            (if entry_status e = 1 then ''Up'' else ''Down'') @ ''</li>'')
                       (List.map_filter (map_of service_statuses) (it ids))) @
             ''</ul>'') region_services) @
          ''<h2>Detailed Status by Region:</h2>'' @
          concat (map (\<lambda>(region, ids).
             (let entries = List.map_filter (map_of service_statuses) (it ids);
                  ups = map entry_name (filter (\<lambda>e. entry_status e = 1) entries);
                  downs = map entry_name (filter (\<lambda>e. entry_status e \<noteq> 1) entries)
              in ''<h3>'' @ region @ '':</h3>'' @
                 ''<p>Services Up: '' @ str_nat (length ups) @ ''</p>'' @
                 ''<p>Services Down: '' @ str_nat (length downs) @ ''</p>'' @
                 (if ups \<noteq> [] then
                    ''<h4>Services Up:</h4>'' @ ''<ul>'' @
                    concat (map (\<lambda>n. ''<li>'' @ n @ ''</li>'') ups) @ ''</ul>''
                  else []) @
                 (if downs \<noteq> [] then
                    ''<h4>Services Down:</h4>'' @ ''<ul>'' @
                    concat (map (\<lambda>n. ''<li>'' @ n @ ''</li>'') downs) @ ''</ul>''
                  else []))) region_services) @
          ''</body></html>'') \<and>
   fst (create_report w) =
     build_report (set_iter w) (fst (get_region_services (regions_response w)))
       (fst (fst (get_service_statuses (statuses_response w))))
       (snd (fst (get_service_statuses (statuses_response w)))) \<and>
   fst (Main_create_report w) = fst (create_report w)"
proof -
  have one: "map_of service_statuses sid = Some e \<longrightarrow>
      listing_body service_statuses sid report =
        Inr (report @ ''<li>'' @ entry_name e @ '': '' @
               (if entry_status e = 1 then ''Up'' else ''Down'') @ ''</li>'') \<and>
      detail_body service_statuses sid region_status =
        Inr (dd_append region_status (if entry_status e = 1 then ''Up'' else ''Down'')
               (entry_name e))"
    using listing_body_eq [of service_statuses sid report]
          detail_body_eq [of service_statuses sid region_status]
    by simp
  have two: "\<exists>d. for_each (detail_body service_statuses) ids [] = Inr d \<and>
      dd_get d ''Up'' = map entry_name (filter (\<lambda>e. entry_status e = 1)
                          (List.map_filter (map_of service_statuses) ids)) \<and>
      dd_get d ''Down'' = map entry_name (filter (\<lambda>e. entry_status e \<noteq> 1)
                          (List.map_filter (map_of service_statuses) ids))"
    using detail_loop [of service_statuses ids "[]"] by (simp add: dd_get_def)
  have three: "fst (create_report w) =
     build_report (set_iter w) (fst (get_region_services (regions_response w)))
       (fst (fst (get_service_statuses (statuses_response w))))
       (snd (fst (get_service_statuses (statuses_response w))))"
    by (rule fst_create_report)
  have c2: "count_status_2 (snd (fst (get_service_statuses resp)))
              = length (filter (\<lambda>s. status s = 2) (walked resp))"
    and c3: "count_status_3 (snd (fst (get_service_statuses resp)))
              = length (filter (\<lambda>s. status s = 3) (walked resp))"
    by (simp_all add: overall_of_walked)
  note ll = listing_loop [of service_statuses ids report]
    and lr = listing_region_eq [of it service_statuses region id_set report]
    and dr = detail_region_eq [of it service_statuses region id_set report]
    and br = build_report_eq [of it region_services service_statuses overall]
    and m = fst_Main_create_report [of w]
  show ?thesis
    by (intro conjI) (fact one ll two c2 c3 lr dr br three m)+
qed

theorem per_region_rendering_is_binary_witness:
  "map_of fx_status_map 4 = Some \<lparr>entry_name = ''Broker'', entry_status = 2\<rparr> \<and>
   listing_body fx_status_map 4 [] = Inr ''<li>Broker: Down</li>'' \<and>
   detail_body fx_status_map 4 [] = Inr [(''Down'', [''Broker''])] \<and>
   for_each (listing_body fx_status_map) [1, 2, 4, 9] [] =
     Inr ''<li>Gateway: Up</li><li>Director: Down</li><li>Broker: Down</li>'' \<and>
   (\<exists>d. for_each (detail_body fx_status_map) [1, 2, 4, 9] [] = Inr d \<and>
      dd_get d ''Up'' = [''Gateway''] \<and> dd_get d ''Down'' = [''Director'', ''Broker'']) \<and>
   listing_region (\<lambda>S. [1, 2, 4, 9]) fx_status_map (''EU'', {1, 2, 4, 9}) [] =
     Inr (''<h3>EU:</h3><ul><li>Gateway: Up</li><li>Director: Down</li>'' @
          ''<li>Broker: Down</li></ul>'') \<and>
   detail_region (\<lambda>S. [1, 2, 4, 9]) fx_status_map (''EU'', {1, 2, 4, 9}) [] =
     Inr (''<h3>EU:</h3><p>Services Up: 1</p><p>Services Down: 2</p>'' @
          ''<h4>Services Up:</h4><ul><li>Gateway</li></ul>'' @
          ''<h4>Services Down:</h4><ul><li>Director</li><li>Broker</li></ul>'') \<and>
   build_report (\<lambda>S. [1, 2, 4, 9]) [(''EU'', {1, 2, 4, 9})] fx_status_map
       initial_overall_status =
     Inr (summary_section [(''EU'', {1, 2, 4, 9})] fx_status_map initial_overall_status @
          ''<h2>Services by Region:</h2>'' @
          ''<h3>EU:</h3><ul><li>Gateway: Up</li><li>Director: Down</li>'' @
          ''<li>Broker: Down</li></ul>'' @
          ''<h2>Detailed Status by Region:</h2>'' @
          ''<h3>EU:</h3><p>Services Up: 1</p><p>Services Down: 2</p>'' @
          ''<h4>Services Up:</h4><ul><li>Gateway</li></ul>'' @
          ''<h4>Services Down:</h4><ul><li>Director</li><li>Broker</li></ul>'' @
          ''</body></html>'')"
proof -
  have key: "map_of fx_status_map 4 = Some \<lparr>entry_name = ''Broker'', entry_status = 2\<rparr>"
    by (simp add: fx_status_map_def)
  note t = per_region_rendering_is_binary
    [where service_statuses = fx_status_map and sid = 4
       and e = "\<lparr>entry_name = ''Broker'', entry_status = 2\<rparr>" and report = "[]"
       and region_status = "[]" and ids = "[1, 2, 4, 9]" and resp = fx_statuses
       and it = "\<lambda>S. [1, 2, 4, 9]" and region = "''EU''" and id_set = "{1, 2, 4, 9}"
       and region_services = "[(''EU'', {1, 2, 4, 9})]" and overall = initial_overall_status
       and w = fx_world]
  from t key show ?thesis
    by (simp add: fx_status_map_def map_filter_Cons List.map_filter_def str_nat_small
        str_nat_two Let_def dd_append_def dd_get_def setitem_def)
qed

lemma listing_body_skip: "\<not> has_key sid ss \<Longrightarrow> listing_body ss sid report = Inr report"
  by (simp add: listing_body_def)

lemma detail_body_skip: "\<not> has_key sid ss \<Longrightarrow> detail_body ss sid d = Inr d"
  by (simp add: detail_body_def)

lemma listing_region_skip:
  "listing_region (\<lambda>S. filter (\<lambda>i. has_key i ss) (it S)) ss = listing_region it ss"
proof (intro ext)
  fix item :: "string \<times> 'a set" and report
  obtain region ids where item: "item = (region, ids)" by (cases item)
  have "for_each (listing_body ss) (filter (\<lambda>i. has_key i ss) (it ids))
           (report @ ''<h3>'' @ region @ '':</h3>'' @ ''<ul>'')
        = for_each (listing_body ss) (it ids) (report @ ''<h3>'' @ region @ '':</h3>'' @ ''<ul>'')"
    by (rule for_each_skip) (rule listing_body_skip)
  then show "listing_region (\<lambda>S. filter (\<lambda>i. has_key i ss) (it S)) ss item report
               = listing_region it ss item report"
    by (simp only: listing_region_def item Let_def case_prod_conv)
qed

lemma detail_region_skip:
  "detail_region (\<lambda>S. filter (\<lambda>i. has_key i ss) (it S)) ss = detail_region it ss"
proof (intro ext)
  fix item :: "string \<times> 'a set" and report
  obtain region ids where item: "item = (region, ids)" by (cases item)
  have "for_each (detail_body ss) (filter (\<lambda>i. has_key i ss) (it ids)) []
        = for_each (detail_body ss) (it ids) []"
    by (rule for_each_skip) (rule detail_body_skip)
  then show "detail_region (\<lambda>S. filter (\<lambda>i. has_key i ss) (it S)) ss item report
               = detail_region it ss item report"
    by (simp only: detail_region_def item Let_def case_prod_conv)
qed

text \<open>
  Claim C7. For every region mapping and status mapping the report is built without an
  exception, in either file. A service id that is not a key of the status mapping leaves
  the report of the by-region listing and the lists of the detailed section unchanged, and
  the whole report equals the report obtained by iterating only over the ids of each region
  that have a status: nothing is rendered for the others.
\<close>

theorem missing_status_is_skipped:
  "(\<exists>report. build_report it region_services service_statuses overall = Inr report) \<and>
   (\<exists>report. fst (create_report w) = Inr report \<and> fst (Main_create_report w) = Inr report) \<and>
   (\<not> has_key sid service_statuses \<longrightarrow>
      listing_body service_statuses sid acc = Inr acc \<and>
      detail_body service_statuses sid region_status = Inr region_status) \<and>
   for_each (listing_body service_statuses) ids acc =
     for_each (listing_body service_statuses)
       (filter (\<lambda>i. has_key i service_statuses) ids) acc \<and>
   for_each (detail_body service_statuses) ids region_status =
     for_each (detail_body service_statuses)
       (filter (\<lambda>i. has_key i service_statuses) ids) region_status \<and>
   build_report it region_services service_statuses overall =
     build_report (\<lambda>S. filter (\<lambda>i. has_key i service_statuses) (it S))
       region_services service_statuses overall"
proof -
  have 1: "\<exists>report. build_report it region_services service_statuses overall = Inr report"
    using build_report_shape by blast
  have 2: "\<exists>report. fst (create_report w) = Inr report \<and> fst (Main_create_report w) = Inr report"
    using create_report_returns [of w] by (simp add: fst_Main_create_report)
  have 3: "\<not> has_key sid service_statuses \<longrightarrow>
      listing_body service_statuses sid acc = Inr acc \<and>
      detail_body service_statuses sid region_status = Inr region_status"
    by (simp add: listing_body_skip detail_body_skip)
  have 4: "for_each (listing_body service_statuses) ids acc =
     for_each (listing_body service_statuses)
       (filter (\<lambda>i. has_key i service_statuses) ids) acc"
    by (rule sym, rule for_each_skip) (rule listing_body_skip)
  have 5: "for_each (detail_body service_statuses) ids region_status =
     for_each (detail_body service_statuses)
       (filter (\<lambda>i. has_key i service_statuses) ids) region_status"
    by (rule sym, rule for_each_skip) (rule detail_body_skip)
  have 6: "build_report it region_services service_statuses overall =
     build_report (\<lambda>S. filter (\<lambda>i. has_key i service_statuses) (it S))
       region_services service_statuses overall"
    by (simp only: build_report_def listing_region_skip detail_region_skip)
  from 1 2 3 4 5 6 show ?thesis by blast
qed

theorem missing_status_is_skipped_witness:
  "\<not> has_key 9 fx_status_map \<and>
   listing_body fx_status_map 9 ''<ul>'' = Inr ''<ul>'' \<and>
   detail_body fx_status_map 9 [] = Inr [] \<and>
   for_each (listing_body fx_status_map) [9, 1] ''<ul>'' =
     for_each (listing_body fx_status_map) [1] ''<ul>'' \<and>
   (\<exists>report. fst (create_report fx_world) = Inr report)"
proof -
  have nk: "\<not> has_key 9 fx_status_map"
    by (simp add: has_key_def fx_status_map_def)
  have f: "filter (\<lambda>i. has_key i fx_status_map) [9, 1] = [1]"
    by (simp add: has_key_def fx_status_map_def)
  note t = missing_status_is_skipped
    [where w = fx_world and sid = 9 and service_statuses = fx_status_map and ids = "[9, 1]"
       and acc = "''<ul>''" and region_status = "[]" and it = "set_iter fx_world"
       and region_services = "[]" and overall = initial_overall_status]
  from t nk have a: "listing_body fx_status_map 9 ''<ul>'' = Inr ''<ul>'' \<and>
      detail_body fx_status_map 9 [] = Inr []" by blast
  from t have b: "\<exists>report. fst (create_report fx_world) = Inr report" by blast
  from t have "for_each (listing_body fx_status_map) [9, 1] ''<ul>'' =
     for_each (listing_body fx_status_map) (filter (\<lambda>i. has_key i fx_status_map) [9, 1]) ''<ul>''"
    by blast
  then have c: "for_each (listing_body fx_status_map) [9, 1] ''<ul>'' =
     for_each (listing_body fx_status_map) [1] ''<ul>''"
    by (simp only: f)
  from nk a b c show ?thesis by blast
qed

section \<open>Properties of the Report Sink and of main\<close>

lemma lower_True: "lower ''True'' = ''true''"
  by code_simp

lemma smtp_session_calls: "snd (smtp_session w srv port tls u pw msg) \<noteq> []"
  by (simp add: smtp_session_def case_prod_beta split: option.split)

lemma send_email_fst:
  "fst (send_email w subject body recipients) =
     (case environ w ''SMTP_PORT'' of
        None \<Rightarrow> Some (TypeError ''int() argument must be a string, not NoneType'')
      | Some p \<Rightarrow>
          (case py_int w p of
             None \<Rightarrow> Some (ValueError ''invalid literal for int() with base 10'')
           | Some port \<Rightarrow> None))"
  by (simp add: send_email_def Let_def case_prod_beta split: option.split)

lemma send_email_calls:
  "fst (snd (send_email w subject body recipients)) = snd (Main_send_email w subject body recipients)"
  by (simp add: send_email_def Main_send_email_def Let_def case_prod_beta split: option.split)

lemma Main_send_email_session:
  "environ w ''SMTP_PORT'' = Some p \<Longrightarrow> py_int w p = Some port \<Longrightarrow>
   Main_send_email w subject body recipients =
     smtp_session w (environ w ''SMTP_SERVER'') port (getenv_use_tls w)
       (environ w ''SMTP_USERNAME'') (environ w ''SMTP_PASSWORD'')
       (make_message w subject body recipients)"
  by (simp add: Main_send_email_def)

lemma send_email_log:
  "environ w ''SMTP_PORT'' = Some p \<Longrightarrow> py_int w p = Some port \<Longrightarrow>
   snd (snd (send_email w subject body recipients)) =
     [(INFO, ''Sending email to '' @ join '', '' recipients),
      (case fst (Main_send_email w subject body recipients) of
         None \<Rightarrow> (INFO, ''Email sent successfully'')
       | Some e \<Rightarrow> (ERROR, ''Error sending email: '' @ str_exc e))]"
  by (simp add: send_email_def Main_send_email_def Let_def case_prod_beta split: option.split)

lemma main_uncaught:
  assumes "fst (create_report w) = Inr report"
  shows "uncaught (main w) =
     (case open_error w of
        Some e \<Rightarrow> Some e
      | None \<Rightarrow>
          (case environ w ''EMAIL_RECIPIENTS'' of
             None \<Rightarrow> Some no_split
           | Some v \<Rightarrow> fst (send_email w ''Citrix Service Status Report'' report
                              (str_split CHR '','' v))))"
  using assms
  by (simp add: main_def Let_def case_prod_beta split: option.split)

lemma main_written:
  assumes "fst (create_report w) = Inr report"
  shows "written (main w) = (case open_error w of Some e \<Rightarrow> None | None \<Rightarrow> Some report)"
  using assms
  by (simp add: main_def Let_def case_prod_beta split: option.split)

lemma main_smtp_calls:
  assumes "fst (create_report w) = Inr report"
  shows "smtp_calls (main w) =
     (case open_error w of
        Some e \<Rightarrow> []
      | None \<Rightarrow>
          (case environ w ''EMAIL_RECIPIENTS'' of
             None \<Rightarrow> []
           | Some v \<Rightarrow> fst (snd (send_email w ''Citrix Service Status Report'' report
                              (str_split CHR '','' v)))))"
  using assms
  by (simp add: main_def Let_def case_prod_beta split: option.split)

lemma Main_main_uncaught:
  assumes "fst (create_report w) = Inr report"
  shows "uncaught (Main_main w) =
     (case open_error w of
        Some e \<Rightarrow> Some e
      | None \<Rightarrow>
          (case environ w ''EMAIL_RECIPIENTS'' of
             None \<Rightarrow> Some no_split
           | Some v \<Rightarrow> fst (Main_send_email w ''Citrix Service Status Report'' report
                              (str_split CHR '','' v))))"
  using assms fst_Main_create_report [of w]
  by (simp add: Main_main_def Let_def case_prod_beta split: option.split)

lemma Main_main_written:
  assumes "fst (create_report w) = Inr report"
  shows "written (Main_main w) = (case open_error w of Some e \<Rightarrow> None | None \<Rightarrow> Some report)"
  using assms fst_Main_create_report [of w]
  by (simp add: Main_main_def Let_def case_prod_beta split: option.split)

lemma Main_main_smtp_calls:
  assumes "fst (create_report w) = Inr report"
  shows "smtp_calls (Main_main w) =
     (case open_error w of
        Some e \<Rightarrow> []
      | None \<Rightarrow>
          (case environ w ''EMAIL_RECIPIENTS'' of
             None \<Rightarrow> []
           | Some v \<Rightarrow> snd (Main_send_email w ''Citrix Service Status Report'' report
                              (str_split CHR '','' v))))"
  using assms fst_Main_create_report [of w]
  by (simp add: Main_main_def Let_def case_prod_beta split: option.split)


text \<open>
  Claim C9. When \<^verbatim>\<open>EMAIL_RECIPIENTS\<close> is not set, a run of either file ends with an uncaught
  exception and attempts no SMTP operation. When the report file can be opened, the file has
  been written with the report and the uncaught exception is the \<^verbatim>\<open>AttributeError\<close> of calling
  \<^verbatim>\<open>split\<close> on \<^verbatim>\<open>None\<close>.
\<close>

theorem missing_recipients_is_fatal:
  assumes "environ w ''EMAIL_RECIPIENTS'' = None"
  shows "uncaught (main w) \<noteq> None \<and> smtp_calls (main w) = [] \<and>
         uncaught (Main_main w) \<noteq> None \<and> smtp_calls (Main_main w) = [] \<and>
         (open_error w = None \<longrightarrow>
            uncaught (main w) = Some no_split \<and> uncaught (Main_main w) = Some no_split \<and>
            (\<exists>report. fst (create_report w) = Inr report \<and>
               written (main w) = Some report \<and> written (Main_main w) = Some report))"
proof -
  obtain report where rep: "fst (create_report w) = Inr report"
    using create_report_returns by blast
  have 1: "uncaught (main w) \<noteq> None" "uncaught (Main_main w) \<noteq> None"
    using assms by (simp_all add: main_uncaught [OF rep] Main_main_uncaught [OF rep]
        split: option.split)
  have 2: "smtp_calls (main w) = []" "smtp_calls (Main_main w) = []"
    using assms by (simp_all add: main_smtp_calls [OF rep] Main_main_smtp_calls [OF rep]
        split: option.split)
  have 3: "open_error w = None \<longrightarrow>
            uncaught (main w) = Some no_split \<and> uncaught (Main_main w) = Some no_split"
    using assms by (simp add: main_uncaught [OF rep] Main_main_uncaught [OF rep])
  have 4: "open_error w = None \<longrightarrow>
            written (main w) = Some report \<and> written (Main_main w) = Some report"
    by (simp add: main_written [OF rep] Main_main_written [OF rep])
  from 1 2 3 4 rep show ?thesis by blast
qed

theorem missing_recipients_is_fatal_witness:
  "environ fx_no_recipients ''EMAIL_RECIPIENTS'' = None \<and>
   open_error fx_no_recipients = None \<and>
   uncaught (main fx_no_recipients) = Some no_split \<and>
   smtp_calls (main fx_no_recipients) = [] \<and>
   written (main fx_no_recipients) \<noteq> None"
proof -
  have e: "environ fx_no_recipients ''EMAIL_RECIPIENTS'' = None"
    by (simp add: fx_no_recipients_def)
  have o: "open_error fx_no_recipients = None"
    by (simp add: fx_no_recipients_def fx_world_def)
  from missing_recipients_is_fatal [OF e] e o show ?thesis by auto
qed

text \<open>
  What \<^verbatim>\<open>send_email\<close> of \<^verbatim>\<open>src/main.py\<close> does when \<^verbatim>\<open>SMTP_PORT\<close> holds an integer: whatever
  exception leaves the SMTP block is caught and logged at level ERROR, and \<^verbatim>\<open>send_email\<close>
  returns normally. \<^verbatim>\<open>send_email\<close> of \<^verbatim>\<open>src/Main.py\<close> is the SMTP block alone.
\<close>

lemma send_email_catches_smtp_errors:
  assumes "environ w ''SMTP_PORT'' = Some p" and "py_int w p = Some port"
  shows "fst (send_email w subject body recipients) = None \<and>
         snd (snd (send_email w subject body recipients)) =
           [(INFO, ''Sending email to '' @ join '', '' recipients),
            (case fst (smtp_session w (environ w ''SMTP_SERVER'') port (getenv_use_tls w)
                         (environ w ''SMTP_USERNAME'') (environ w ''SMTP_PASSWORD'')
                         (make_message w subject body recipients)) of
               None \<Rightarrow> (INFO, ''Email sent successfully'')
             | Some e \<Rightarrow> (ERROR, ''Error sending email: '' @ str_exc e))] \<and>
         Main_send_email w subject body recipients =
           smtp_session w (environ w ''SMTP_SERVER'') port (getenv_use_tls w)
             (environ w ''SMTP_USERNAME'') (environ w ''SMTP_PASSWORD'')
             (make_message w subject body recipients) \<and>
         (environ w ''EMAIL_RECIPIENTS'' = Some v \<and> open_error w = None \<longrightarrow>
            uncaught (main w) = None \<and>
            (\<exists>report. fst (create_report w) = Inr report \<and>
               written (main w) = Some report \<and> written (Main_main w) = Some report \<and>
               uncaught (Main_main w) =
                 fst (smtp_session w (environ w ''SMTP_SERVER'') port (getenv_use_tls w)
                        (environ w ''SMTP_USERNAME'') (environ w ''SMTP_PASSWORD'')
                        (make_message w ''Citrix Service Status Report'' report
                           (str_split CHR '','' v)))))"
proof -
  obtain report where rep: "fst (create_report w) = Inr report"
    using create_report_returns by blast
  have 1: "fst (send_email w subject body recipients) = None"
    using assms by (simp add: send_email_fst)
  have 2: "Main_send_email w subject body recipients =
           smtp_session w (environ w ''SMTP_SERVER'') port (getenv_use_tls w)
             (environ w ''SMTP_USERNAME'') (environ w ''SMTP_PASSWORD'')
             (make_message w subject body recipients)"
    using assms by (rule Main_send_email_session)
  have 3: "snd (snd (send_email w subject body recipients)) =
           [(INFO, ''Sending email to '' @ join '', '' recipients),
            (case fst (smtp_session w (environ w ''SMTP_SERVER'') port (getenv_use_tls w)
                         (environ w ''SMTP_USERNAME'') (environ w ''SMTP_PASSWORD'')
                         (make_message w subject body recipients)) of
               None \<Rightarrow> (INFO, ''Email sent successfully'')
             | Some e \<Rightarrow> (ERROR, ''Error sending email: '' @ str_exc e))]"
    using send_email_log [OF assms, of subject body recipients] by (simp only: 2)
  have 4: "environ w ''EMAIL_RECIPIENTS'' = Some v \<and> open_error w = None \<longrightarrow>
            uncaught (main w) = None \<and>
            written (main w) = Some report \<and> written (Main_main w) = Some report \<and>
            uncaught (Main_main w) =
                 fst (smtp_session w (environ w ''SMTP_SERVER'') port (getenv_use_tls w)
                        (environ w ''SMTP_USERNAME'') (environ w ''SMTP_PASSWORD'')
                        (make_message w ''Citrix Service Status Report'' report
                           (str_split CHR '','' v)))"
    using assms
    by (simp add: main_uncaught [OF rep] main_written [OF rep] Main_main_written [OF rep]
        Main_main_uncaught [OF rep] send_email_fst Main_send_email_session)
  from 1 2 3 4 rep show ?thesis by blast
qed

text \<open>
  What the two files have in common: the report, the file written and the SMTP operations
  attempted, and the way a run ends as long as no SMTP operation is attempted.
\<close>

lemma files_agree_outside_smtp_block:
  "fst (Main_create_report w) = fst (create_report w) \<and>
   written (Main_main w) = written (main w) \<and>
   smtp_calls (Main_main w) = smtp_calls (main w) \<and>
   uncaught (main w) = (if smtp_calls (Main_main w) = [] then uncaught (Main_main w) else None)"
proof -
  obtain report where rep: "fst (create_report w) = Inr report"
    using create_report_returns by blast
  have 1: "written (Main_main w) = written (main w)"
    by (simp add: main_written [OF rep] Main_main_written [OF rep])
  have 2: "smtp_calls (Main_main w) = smtp_calls (main w)"
    by (simp add: main_smtp_calls [OF rep] Main_main_smtp_calls [OF rep] send_email_calls
        split: option.split)
  have 3: "uncaught (main w) =
      (if smtp_calls (Main_main w) = [] then uncaught (Main_main w) else None)"
  proof (cases "open_error w")
    case (Some e)
    then show ?thesis
      by (simp add: main_uncaught [OF rep] Main_main_uncaught [OF rep]
          Main_main_smtp_calls [OF rep])
  next
    case None
    note op = None
    show ?thesis
    proof (cases "environ w ''EMAIL_RECIPIENTS''")
      case None
      with op show ?thesis
        by (simp add: main_uncaught [OF rep] Main_main_uncaught [OF rep]
            Main_main_smtp_calls [OF rep])
    next
      case (Some v)
      note rc = Some
      show ?thesis
      proof (cases "environ w ''SMTP_PORT''")
        case None
        with op rc show ?thesis
          by (simp add: main_uncaught [OF rep] Main_main_uncaught [OF rep]
              Main_main_smtp_calls [OF rep] send_email_fst Main_send_email_def)
      next
        case (Some p)
        note port = Some
        show ?thesis
        proof (cases "py_int w p")
          case None
          with op rc port show ?thesis
            by (simp add: main_uncaught [OF rep] Main_main_uncaught [OF rep]
                Main_main_smtp_calls [OF rep] send_email_fst Main_send_email_def)
        next
          case (Some n)
          with op rc port show ?thesis
            by (simp add: main_uncaught [OF rep] Main_main_uncaught [OF rep]
                Main_main_smtp_calls [OF rep] send_email_fst Main_send_email_session
                smtp_session_calls)
        qed
      qed
    qed
  qed
  from 1 2 3 show ?thesis by (simp add: fst_Main_create_report)
qed

text \<open>
  Claim C3. Every exception raised while connecting, negotiating TLS, logging in or sending
  is to be caught and logged by \<^verbatim>\<open>send_email\<close>, which returns normally, so that the run ends
  with exit code 0 and the written report file stays. \<^verbatim>\<open>src/main.py\<close> does this and
  \<^verbatim>\<open>src/Main.py\<close> does not: when the server rejects the login, \<^verbatim>\<open>send_email\<close> of
  \<^verbatim>\<open>src/main.py\<close> returns normally after logging the error and the run ends normally, while
  the exception leaves \<^verbatim>\<open>send_email\<close> of \<^verbatim>\<open>src/Main.py\<close> and ends the run, after the same
  file has been written and the same SMTP operations attempted.
\<close>

theorem Main_send_email_has_no_handler:
  "fst (send_email fx_login_rejected ''Citrix Service Status Report'' empty_report
          [''a@example.org'']) = None \<and>
   snd (snd (send_email fx_login_rejected ''Citrix Service Status Report'' empty_report
          [''a@example.org''])) =
     [(INFO, ''Sending email to a@example.org''),
      (ERROR, ''Error sending email: Authentication failed'')] \<and>
   uncaught (main fx_login_rejected) = None \<and>
   fst (Main_send_email fx_login_rejected ''Citrix Service Status Report'' empty_report
          [''a@example.org'']) = Some (SMTPException ''Authentication failed'') \<and>
   uncaught (Main_main fx_login_rejected) = Some (SMTPException ''Authentication failed'') \<and>
   written (Main_main fx_login_rejected) = written (main fx_login_rejected) \<and>
   written (main fx_login_rejected) \<noteq> None \<and>
   smtp_calls (Main_main fx_login_rejected) =
     [Connect (Some ''mail.example.org'') 587, StartTLS,
      Login (Some ''reports'') (Some ''secret''), Quit]"
proof -
  obtain report where rep: "fst (create_report fx_login_rejected) = Inr report"
    using create_report_returns by blast
  have p: "environ fx_login_rejected ''SMTP_PORT'' = Some ''587''"
    by (simp add: fx_login_rejected_def fx_world_def fx_env_def)
  have i: "py_int fx_login_rejected ''587'' = Some 587"
    by (simp add: fx_login_rejected_def fx_world_def)
  have r: "environ fx_login_rejected ''EMAIL_RECIPIENTS'' = Some ''a@example.org,b@example.org''"
    by (simp add: fx_login_rejected_def fx_world_def fx_env_def)
  have o: "open_error fx_login_rejected = None"
    by (simp add: fx_login_rejected_def fx_world_def)
  have tls: "getenv_use_tls fx_login_rejected"
    by (simp add: getenv_use_tls_def fx_login_rejected_def fx_world_def fx_env_def lower_True)
  have s: "smtp_session fx_login_rejected (environ fx_login_rejected ''SMTP_SERVER'') 587
             (getenv_use_tls fx_login_rejected) (environ fx_login_rejected ''SMTP_USERNAME'')
             (environ fx_login_rejected ''SMTP_PASSWORD'') msg
             = (Some (SMTPException ''Authentication failed''),
                [Connect (Some ''mail.example.org'') 587, StartTLS,
                 Login (Some ''reports'') (Some ''secret''), Quit])" for msg
    unfolding smtp_session_def smtp_body_def
    by (simp add: tls) (simp add: fx_login_rejected_def fx_world_def fx_env_def)
  have m: "Main_send_email fx_login_rejected subject body recipients
             = (Some (SMTPException ''Authentication failed''),
                [Connect (Some ''mail.example.org'') 587, StartTLS,
                 Login (Some ''reports'') (Some ''secret''), Quit])" for subject body recipients
    by (simp add: Main_send_email_session [OF p i] s)
  have 1: "fst (send_email fx_login_rejected subject body recipients) = None"
    for subject body recipients
    by (simp add: send_email_fst p i)
  have 2: "snd (snd (send_email fx_login_rejected ''Citrix Service Status Report'' empty_report
          [''a@example.org''])) =
     [(INFO, ''Sending email to a@example.org''),
      (ERROR, ''Error sending email: Authentication failed'')]"
    by (simp add: send_email_log [OF p i] m)
  have 3: "uncaught (main fx_login_rejected) = None"
    by (simp add: main_uncaught [OF rep] o r 1)
  have 4: "uncaught (Main_main fx_login_rejected) = Some (SMTPException ''Authentication failed'')"
    by (simp add: Main_main_uncaught [OF rep] o r m)
  have 5: "written (Main_main fx_login_rejected) = written (main fx_login_rejected)"
    "written (main fx_login_rejected) \<noteq> None"
    by (simp_all add: main_written [OF rep] Main_main_written [OF rep] o)
  have 6: "smtp_calls (Main_main fx_login_rejected) =
     [Connect (Some ''mail.example.org'') 587, StartTLS,
      Login (Some ''reports'') (Some ''secret''), Quit]"
    by (simp add: Main_main_smtp_calls [OF rep] o r m)
  from 1 2 3 4 5 6 m show ?thesis by simp
qed

text \<open>
  Claim C2. The two files are to behave the same but for their log output.
  When the server refuses the connection they build the same report, write the same file
  and attempt the same SMTP operation, but \<^verbatim>\<open>src/main.py\<close> ends normally and \<^verbatim>\<open>src/Main.py\<close>
  ends with the uncaught exception.
\<close>

theorem Main_main_ends_on_refused_connection:
  "fst (Main_create_report fx_smtp_down) = fst (create_report fx_smtp_down) \<and>
   written (Main_main fx_smtp_down) = written (main fx_smtp_down) \<and>
   written (main fx_smtp_down) \<noteq> None \<and>
   smtp_calls (Main_main fx_smtp_down) = smtp_calls (main fx_smtp_down) \<and>
   smtp_calls (main fx_smtp_down) = [Connect (Some ''mail.example.org'') 587] \<and>
   uncaught (main fx_smtp_down) = None \<and>
   uncaught (Main_main fx_smtp_down) = Some (OSError ''Connection refused'')"
proof -
  obtain report where rep: "fst (create_report fx_smtp_down) = Inr report"
    using create_report_returns by blast
  have p: "environ fx_smtp_down ''SMTP_PORT'' = Some ''587''"
    by (simp add: fx_smtp_down_def fx_world_def fx_env_def)
  have i: "py_int fx_smtp_down ''587'' = Some 587"
    by (simp add: fx_smtp_down_def fx_world_def)
  have r: "environ fx_smtp_down ''EMAIL_RECIPIENTS'' = Some ''a@example.org,b@example.org''"
    by (simp add: fx_smtp_down_def fx_world_def fx_env_def)
  have o: "open_error fx_smtp_down = None"
    by (simp add: fx_smtp_down_def fx_world_def)
  have m: "Main_send_email fx_smtp_down subject body recipients
             = (Some (OSError ''Connection refused''),
                [Connect (Some ''mail.example.org'') 587])" for subject body recipients
    unfolding Main_send_email_session [OF p i] smtp_session_def
    by (simp add: fx_smtp_down_def fx_world_def fx_env_def)
  have 1: "fst (send_email fx_smtp_down subject body recipients) = None"
    for subject body recipients
    by (simp add: send_email_fst p i)
  have 2: "uncaught (main fx_smtp_down) = None"
    by (simp add: main_uncaught [OF rep] o r 1)
  have 3: "uncaught (Main_main fx_smtp_down) = Some (OSError ''Connection refused'')"
    by (simp add: Main_main_uncaught [OF rep] o r m)
  have 4: "written (Main_main fx_smtp_down) = written (main fx_smtp_down)"
    "written (main fx_smtp_down) \<noteq> None"
    by (simp_all add: main_written [OF rep] Main_main_written [OF rep] o)
  have 5: "smtp_calls (Main_main fx_smtp_down) = [Connect (Some ''mail.example.org'') 587]"
    by (simp add: Main_main_smtp_calls [OF rep] o r m)
  have 6: "smtp_calls (main fx_smtp_down) = smtp_calls (Main_main fx_smtp_down)"
    by (simp add: main_smtp_calls [OF rep] Main_main_smtp_calls [OF rep] o r send_email_calls)
  from 2 3 4 5 6 show ?thesis by (simp add: fst_Main_create_report)
qed

end
